theory Spec2Isabelle
  imports Complex_Main
begin

section \<open>Python values, errors and results\<close>

text \<open>
  The values that travel through the models' properties. \<open>PyQuantity m u\<close> is the
  quantity \<open>Q_(m, u)\<close>: a magnitude and a unit string.

  Modelled from the spec: the acquisition-mode constants \<open>MODE_SINGLE_SHOT\<close>,
  \<open>MODE_CONTINUOUS\<close> and \<open>MODE_LAST\<close> belong to the camera base class, which is not
  among the repository's files; the spec names "the three acquisition-mode constants
  (single-shot, continuous, last)". They are three values of their own, distinct from each
  other and from every other value.
\<close>

datatype pyval =
    PyNone
  | PyBool bool
  | PyInt int
  | PyFloat real
  | PyStr string
  | PyQuantity real string
  | MODE_SINGLE_SHOT
  | MODE_CONTINUOUS
  | MODE_LAST

text \<open>Every exception a modelled function can raise.\<close>

datatype error =
    AttributeError string
  | TypeError string
  | KeyError string
  | IndexError
  | NameError string
  | Exception string
  | DimensionalityError
  | CameraNotFound string
  | WrongCameraState string
  | CameraException string
  | TimeoutException

text \<open>
  A call either returns a value or raises, and in both cases leaves a state behind: what a
  Python method has assigned before it raises stays assigned.
\<close>

type_synonym ('a, 's) res = "(error + 'a) \<times> 's"

definition bind_res :: "('a, 's) res \<Rightarrow> ('a \<Rightarrow> 's \<Rightarrow> ('b, 's) res) \<Rightarrow> ('b, 's) res" where
  "bind_res r k = (case r of (Inl e, s) \<Rightarrow> (Inl e, s) | (Inr v, s) \<Rightarrow> k v s)"

section \<open>The configuration store\<close>

text \<open>
  Modelled from the spec: the class of \<open>instance.config\<close> is not among the repository's
  files. The spec calls it "a mapping from property name to last-known value" whose
  \<open>upgrade\<close> "merges one or more name-to-value pairs into the store, optionally forcing
  overwrite of cached entries". Every call in the modelled code passes \<open>force=True\<close>, so
  only the forced merge is defined. Subscripting a name the store does not hold raises
  \<open>KeyError\<close>, as a Python mapping does.
\<close>

type_synonym config_store = "string \<rightharpoonup> pyval"

fun upgrade_force :: "config_store \<Rightarrow> (string \<times> pyval) list \<Rightarrow> config_store" where
  "upgrade_force c [] = c"
| "upgrade_force c ((k, v) # kvs) = upgrade_force (c(k \<mapsto> v)) kvs"

definition config_getitem :: "config_store \<Rightarrow> string \<Rightarrow> error + pyval" where
  "config_getitem c k = (case c k of None \<Rightarrow> Inl (KeyError k) | Some v \<Rightarrow> Inr v)"

text \<open>Every model instance holds a \<open>config\<close>; concrete models extend this record.\<close>

record model_instance =
  config :: config_store

section \<open>Feature (models/feature.py)\<close>

text \<open>
  A descriptor object. \<open>name\<close> is the class attribute \<open>name = ''\<close>; \<open>cached\<close> is the
  attribute \<open>self.value\<close>. The getter and the setter are the user's callables: they take
  the instance, may change it and may raise.
\<close>

record 'i Feature =
  fget :: "('i \<Rightarrow> (pyval, 'i) res) option"
  fset :: "('i \<Rightarrow> pyval \<Rightarrow> (unit, 'i) res) option"
  name :: string
  is_setting :: bool
  force_update :: pyval
  cached :: pyval

text \<open>
  \<open>Feature.__init__\<close>: \<open>setting\<close> and \<open>force_update_arg\<close> are the two keyword options
  the constructor reads with \<open>kwargs.get\<close>; \<open>None\<close> here means the keyword was not given.
\<close>

definition Feature_init ::
  "('i \<Rightarrow> (pyval, 'i) res) option \<Rightarrow> ('i \<Rightarrow> pyval \<Rightarrow> (unit, 'i) res) option \<Rightarrow>
     bool option \<Rightarrow> pyval option \<Rightarrow> 'i Feature" where
  "Feature_init g s setting force_update_arg =
     \<lparr> Feature.fget = g, fset = s, name = '''',
       is_setting = (case setting of None \<Rightarrow> False | Some b \<Rightarrow> b),
       force_update = (case force_update_arg of None \<Rightarrow> PyNone | Some a \<Rightarrow> a),
       cached = PyNone \<rparr>"

text \<open>
  \<open>Feature.__get__\<close> on an instance (the access on the class, \<open>instance is None\<close>,
  returns the descriptor itself and is not a read of the property). The result carries
  the descriptor as well, to show what the read leaves in \<open>self.value\<close>.
\<close>

definition Feature_get ::
  "'a model_instance_scheme Feature \<Rightarrow> 'a model_instance_scheme \<Rightarrow>
     (pyval, 'a model_instance_scheme Feature \<times> 'a model_instance_scheme) res" where
  "Feature_get f inst =
     (case Feature.fget f of
        None \<Rightarrow> (Inl (AttributeError ''unreadable attribute''), (f, inst))
      | Some g \<Rightarrow>
          if is_setting f \<and> cached f \<noteq> force_update f then (Inr (cached f), (f, inst))
          else (case g inst of
                  (Inl e, inst') \<Rightarrow> (Inl e, (f, inst'))
                | (Inr val, inst') \<Rightarrow>
                    (Inr val,
                     (f, inst'\<lparr>config := upgrade_force (config inst') [(Feature.name f, val)]\<rparr>))))"

text \<open>
  \<open>Feature.__set__\<close>. On the force-update branch the code calls \<open>self.fget\<close> without a
  test; calling \<open>None\<close> raises \<open>TypeError\<close>.
\<close>

definition Feature_set ::
  "'a model_instance_scheme Feature \<Rightarrow> 'a model_instance_scheme \<Rightarrow> pyval \<Rightarrow>
     (unit, 'a model_instance_scheme Feature \<times> 'a model_instance_scheme) res" where
  "Feature_set f inst v =
     (case Feature.fset f of
        None \<Rightarrow> (Inl (AttributeError ''can't set attribute''), (f, inst))
      | Some s \<Rightarrow>
          if is_setting f \<and> force_update f = v then
            (case Feature.fget f of
               None \<Rightarrow> (Inl (TypeError ''NoneType object is not callable''), (f, inst))
             | Some g \<Rightarrow>
                 (case g inst of
                    (Inl e, inst') \<Rightarrow> (Inl e, (f, inst'))
                  | (Inr val, inst') \<Rightarrow>
                      (Inr (),
                       (f\<lparr>cached := val\<rparr>,
                        inst'\<lparr>config := upgrade_force (config inst') [(Feature.name f, val)]\<rparr>))))
          else
            (case s inst v of
               (Inl e, inst') \<Rightarrow> (Inl e, (f, inst'))
             | (Inr u, inst') \<Rightarrow>
                 (Inr (),
                  (f\<lparr>cached := v\<rparr>,
                   inst'\<lparr>config := upgrade_force (config inst') [(Feature.name f, v)]\<rparr>))))"

section \<open>ModelProp (models/model_properties.py)\<close>

text \<open>
  The same descriptor without the cache. \<open>inst_ref\<close> is the attribute \<open>self.instance\<close>
  that \<open>__get__\<close> assigns.
\<close>

record 'i ModelProp =
  fget :: "('i \<Rightarrow> (pyval, 'i) res) option"
  fset :: "('i \<Rightarrow> pyval \<Rightarrow> (unit, 'i) res) option"
  name :: string
  inst_ref :: "'i option"

definition ModelProp_init ::
  "('i \<Rightarrow> (pyval, 'i) res) option \<Rightarrow> ('i \<Rightarrow> pyval \<Rightarrow> (unit, 'i) res) option \<Rightarrow> 'i ModelProp" where
  "ModelProp_init g s = \<lparr> ModelProp.fget = g, fset = s, name = '''', inst_ref = None \<rparr>"

definition ModelProp_get ::
  "'a model_instance_scheme ModelProp \<Rightarrow> 'a model_instance_scheme \<Rightarrow>
     (pyval, 'a model_instance_scheme ModelProp \<times> 'a model_instance_scheme) res" where
  "ModelProp_get p inst =
     (case ModelProp.fget p of
        None \<Rightarrow> (Inl (AttributeError ''unreadable attribute''), (p, inst))
      | Some g \<Rightarrow>
          (case g inst of
             (Inl e, inst') \<Rightarrow> (Inl e, (p\<lparr>inst_ref := Some inst\<rparr>, inst'))
           | (Inr val, inst') \<Rightarrow>
               (Inr val,
                (p\<lparr>inst_ref := Some inst\<rparr>,
                 inst'\<lparr>config := upgrade_force (config inst') [(ModelProp.name p, val)]\<rparr>))))"

definition ModelProp_set ::
  "'a model_instance_scheme ModelProp \<Rightarrow> 'a model_instance_scheme \<Rightarrow> pyval \<Rightarrow>
     (unit, 'a model_instance_scheme ModelProp \<times> 'a model_instance_scheme) res" where
  "ModelProp_set p inst v =
     (case ModelProp.fset p of
        None \<Rightarrow> (Inl (AttributeError ''can't set attribute''), (p, inst))
      | Some s \<Rightarrow>
          (case s inst v of
             (Inl e, inst') \<Rightarrow> (Inl e, (p, inst'))
           | (Inr u, inst') \<Rightarrow>
               (Inr (),
                (p, inst'\<lparr>config := upgrade_force (config inst') [(ModelProp.name p, v)]\<rparr>))))"

section \<open>The property registry and \<open>__set_name__\<close>\<close>

text \<open>
  Registries are objects shared by reference between classes, so they live in a store:
  \<open>heap\<close> maps a reference to the registry's dictionary \<open>entries\<close> and its attribute
  \<open>model_name\<close> (\<open>None\<close> while the attribute is absent). A class has its \<open>__mro__\<close>
  (itself first) and, when its own namespace holds one, the reference of its own
  \<open>_model_props\<close>. Reading \<open>owner._model_props\<close> walks the \<open>__mro__\<close>, as Python's
  attribute lookup on a class does.
\<close>

record 'd registry =
  entries :: "string \<rightharpoonup> 'd"
  model_name :: "string option"

record class_obj =
  mro :: "string list"
  own_model_props :: "nat option"

record 'd world =
  classes :: "string \<rightharpoonup> class_obj"
  heap :: "nat \<rightharpoonup> 'd registry"
  next_ref :: nat

fun first_own :: "(string \<rightharpoonup> class_obj) \<Rightarrow> string list \<Rightarrow> nat option" where
  "first_own cs [] = None"
| "first_own cs (n # ns) =
     (case cs n of
        None \<Rightarrow> first_own cs ns
      | Some c \<Rightarrow> (case own_model_props c of None \<Rightarrow> first_own cs ns | Some a \<Rightarrow> Some a))"

definition getattr_model_props :: "'d world \<Rightarrow> string \<Rightarrow> error + nat" where
  "getattr_model_props w owner =
     (case classes w owner of
        None \<Rightarrow> Inl (NameError owner)
      | Some c \<Rightarrow>
          (case first_own (classes w) (mro c) of
             None \<Rightarrow> Inl (AttributeError ''_model_props'')
           | Some a \<Rightarrow> Inr a))"

text \<open>\<open>object.__qualname__\<close>: the qualified name of the builtin class \<open>object\<close>.\<close>

definition object_qualname :: string where
  "object_qualname = ''object''"

text \<open>
  \<open>__set_name__(self, owner, name)\<close>, the same text in \<open>Feature\<close> and \<open>ModelProp\<close>.
  \<open>model_props.__class__(**model_props)\<close> builds a new registry object from the entries of
  the old one. The method assigns nothing to \<open>self\<close>, so the descriptor is unchanged and
  only the classes and the store are returned.
\<close>

definition set_name :: "'d \<Rightarrow> string \<Rightarrow> string \<Rightarrow> 'd world \<Rightarrow> error + 'd world" where
  "set_name self owner nm w =
     (case getattr_model_props w owner of
        Inl e \<Rightarrow> Inl e
      | Inr a \<Rightarrow>
          (case (heap w a, classes w owner) of
             (Some model_props, Some c) \<Rightarrow>
               (let w1 =
                      (if model_name model_props \<noteq> Some object_qualname then
                         w\<lparr> heap := (heap w)(next_ref w \<mapsto>
                                      \<lparr> entries = entries model_props,
                                        model_name = Some object_qualname \<rparr>),
                            next_ref := Suc (next_ref w),
                            classes := (classes w)(owner \<mapsto> c\<lparr>own_model_props := Some (next_ref w)\<rparr>) \<rparr>
                       else w)
                in (case getattr_model_props w1 owner of
                      Inl e \<Rightarrow> Inl e
                    | Inr a1 \<Rightarrow>
                        (case heap w1 a1 of
                           None \<Rightarrow> Inl (AttributeError ''_model_props'')
                         | Some r \<Rightarrow>
                             Inr (w1\<lparr> heap := (heap w1)(a1 \<mapsto> r\<lparr>entries := (entries r)(nm \<mapsto> self)\<rparr>) \<rparr>))))
           | _ \<Rightarrow> Inl (AttributeError ''_model_props'')))"

text \<open>
  A class statement \<open>class cname(base): n1 = d1; n2 = d2; ...\<close>: the class object is
  created, then \<open>__set_name__\<close> runs for each descriptor of the body, in the order of the
  body.
\<close>

fun bind_descriptors :: "string \<Rightarrow> (string \<times> 'd) list \<Rightarrow> 'd world \<Rightarrow> error + 'd world" where
  "bind_descriptors owner [] w = Inr w"
| "bind_descriptors owner ((nm, d) # rest) w =
     (case set_name d owner nm w of
        Inl e \<Rightarrow> Inl e
      | Inr w' \<Rightarrow> bind_descriptors owner rest w')"

definition class_statement ::
  "string \<Rightarrow> string \<Rightarrow> (string \<times> 'd) list \<Rightarrow> 'd world \<Rightarrow> error + 'd world" where
  "class_statement cname base body w =
     (case classes w base of
        None \<Rightarrow> Inl (NameError base)
      | Some b \<Rightarrow>
          bind_descriptors cname body
            (w\<lparr> classes := (classes w)(cname \<mapsto> \<lparr> mro = cname # mro b, own_model_props = None \<rparr>) \<rparr>))"

text \<open>
  Modelled from the spec: the class that first holds \<open>_model_props\<close> is not among the
  repository's files (\<open>Model\<close> in models.py has no such attribute). The spec's registry is
  "a mapping from property name to PropertyDescriptor, scoped per class"; the root class
  starts with an empty one whose \<open>model_name\<close> is not set.
\<close>

definition root_world :: "string \<Rightarrow> 'd world" where
  "root_world rt =
     \<lparr> classes = [rt \<mapsto> \<lparr> mro = [rt], own_model_props = Some 0 \<rparr>],
       heap = [0 \<mapsto> \<lparr> entries = Map.empty, model_name = None \<rparr>],
       next_ref = 1 \<rparr>"

text \<open>The registry a class sees, and the names it holds there.\<close>

definition registry_of :: "'d world \<Rightarrow> string \<Rightarrow> 'd registry option" where
  "registry_of w c = (case getattr_model_props w c of Inl e \<Rightarrow> None | Inr a \<Rightarrow> heap w a)"

definition registered :: "'d world \<Rightarrow> string \<Rightarrow> string \<Rightarrow> bool" where
  "registered w c nm = (case registry_of w c of None \<Rightarrow> False | Some r \<Rightarrow> entries r nm \<noteq> None)"

text \<open>
  The classes of the registry-isolation scenario: \<open>A\<close> declares \<open>pa\<close>, and \<open>B(A)\<close> and
  \<open>C(A)\<close> declare \<open>pb\<close> and \<open>pc\<close>. Descriptors are told apart by a number.
\<close>

definition world_A :: "error + nat world" where
  "world_A = class_statement ''A'' ''Model'' [(''pa'', 1)] (root_world ''Model'')"

definition world_AB :: "error + nat world" where
  "world_AB = (case world_A of Inl e \<Rightarrow> Inl e | Inr w \<Rightarrow> class_statement ''B'' ''A'' [(''pb'', 2)] w)"

definition world_ABC :: "error + nat world" where
  "world_ABC = (case world_AB of Inl e \<Rightarrow> Inl e | Inr w \<Rightarrow> class_statement ''C'' ''A'' [(''pc'', 3)] w)"

section \<open>A model with one device register\<close>

text \<open>
  An instance to run the descriptors on: \<open>register\<close> is the value the device holds and
  \<open>reads\<close> counts the calls of the getter. The getter reads the register, the setter
  writes it; \<open>counting_getter\<close> returns the number of the call, so that every call returns a
  new value.
\<close>

record probe = model_instance +
  register :: pyval
  reads :: nat

definition probe_getter :: "probe \<Rightarrow> (pyval, probe) res" where
  "probe_getter i = (Inr (register i), i\<lparr>reads := reads i + 1\<rparr>)"

definition counting_getter :: "probe \<Rightarrow> (pyval, probe) res" where
  "counting_getter i = (Inr (PyInt (int (reads i) + 1)), i\<lparr>reads := reads i + 1\<rparr>)"

definition probe_setter :: "probe \<Rightarrow> pyval \<Rightarrow> (unit, probe) res" where
  "probe_setter i v = (Inr (), i\<lparr>register := v\<rparr>)"

definition probe0 :: probe where
  "probe0 = \<lparr> config = Map.empty, register = PyInt 7, reads = 0 \<rparr>"

text \<open>Two reads of a Feature in a row, with no write between them.\<close>

definition read_twice ::
  "'a model_instance_scheme Feature \<Rightarrow> 'a model_instance_scheme \<Rightarrow>
     (error + pyval) \<times> (error + pyval) \<times> 'a model_instance_scheme Feature \<times> 'a model_instance_scheme" where
  "read_twice f inst =
     (case Feature_get f inst of
        (r1, (f1, inst1)) \<Rightarrow>
          (case Feature_get f1 inst1 of (r2, (f2, inst2)) \<Rightarrow> (r1, r2, f2, inst2)))"

section \<open>Model (models/models.py)\<close>

text \<open>
  What an attribute name of a model leads to: a \<open>ModelProp\<close> or a \<open>Feature\<close> of the
  class (with the value its getter returns) or a plain value. \<open>u_name\<close> and
  \<open>u_properties\<close> are \<open>_name\<close> and \<open>_properties\<close>; \<open>driver_attr\<close> is \<open>__driver__\<close>.
\<close>

datatype attribute = ModelPropAttr pyval | FeatureAttr pyval | PlainAttr pyval

text \<open>The objects the loop of \<open>_collect_properties\<close> may hold in \<open>item\<close>.\<close>

datatype item = StrItem string | ModelPropItem

record Model = model_instance +
  driver_attr :: "pyval"
  u_name :: pyval
  u_properties :: "pyval list"
  attributes :: "(string \<times> attribute) list"

text \<open>\<open>Model.__init__\<close> refuses a class whose \<open>__driver__\<close> is \<open>None\<close>.\<close>

definition Model_init :: "Model \<Rightarrow> error + Model" where
  "Model_init m =
     (if driver_attr m = PyNone
      then Inl (Exception ''You should specify a driver by overwritting __driver__'')
      else Inr m)"

text \<open>
  \<open>dir(self)\<close> is a list of attribute names, that is of strings. (Python sorts the list;
  here the names come in the order of \<open>attributes\<close>.)
\<close>

definition dir_py :: "Model \<Rightarrow> item list" where
  "dir_py m = map (\<lambda>(n, a). StrItem n) (attributes m)"

fun isinstance_ModelProp :: "item \<Rightarrow> bool" where
  "isinstance_ModelProp ModelPropItem = True"
| "isinstance_ModelProp (StrItem n) = False"

text \<open>
  \<open>getattr(self, item)\<close> wants a string for a name. \<open>_properties\<close> is a list, and a list
  takes integers and slices for indices, so \<open>self._properties[item] = ...\<close> raises
  \<open>TypeError\<close> for a string and for a \<open>ModelProp\<close> alike.
\<close>

definition getattr_py :: "Model \<Rightarrow> item \<Rightarrow> error + pyval" where
  "getattr_py m it =
     (case it of
        ModelPropItem \<Rightarrow> Inl (TypeError ''attribute name must be string'')
      | StrItem n \<Rightarrow>
          (case map_of (attributes m) n of
             None \<Rightarrow> Inl (AttributeError n)
           | Some (ModelPropAttr v) \<Rightarrow> Inr v
           | Some (FeatureAttr v) \<Rightarrow> Inr v
           | Some (PlainAttr v) \<Rightarrow> Inr v))"

definition deepcopy :: "pyval \<Rightarrow> pyval" where
  "deepcopy v = v"

definition list_setitem :: "pyval list \<Rightarrow> item \<Rightarrow> pyval \<Rightarrow> error + pyval list" where
  "list_setitem xs it v =
     (case it of
        StrItem n \<Rightarrow> Inl (TypeError ''list indices must be integers or slices, not str'')
      | ModelPropItem \<Rightarrow> Inl (TypeError ''list indices must be integers or slices, not ModelProp''))"

text \<open>\<open>Model._collect_properties\<close>: the loop over \<open>dir(self)\<close>.\<close>

fun collect_items :: "item list \<Rightarrow> Model \<Rightarrow> (unit, Model) res" where
  "collect_items [] m = (Inr (), m)"
| "collect_items (it # rest) m =
     (if isinstance_ModelProp it then
        (case getattr_py m it of
           Inl e \<Rightarrow> (Inl e, m)
         | Inr prop \<Rightarrow>
             (case list_setitem (u_properties m) it (deepcopy prop) of
                Inl e \<Rightarrow> (Inl e, m)
              | Inr ps \<Rightarrow> collect_items rest (m\<lparr>u_properties := ps\<rparr>)))
      else collect_items rest m)"

definition collect_properties :: "Model \<Rightarrow> (unit, Model) res" where
  "collect_properties m = collect_items (dir_py m) m"

text \<open>A model whose class declares the \<open>ModelProp\<close> \<open>exposure\<close>.\<close>

definition model_with_prop :: Model where
  "model_with_prop =
     \<lparr> config = Map.empty, driver_attr = PyStr ''driver'', u_name = PyNone, u_properties = [],
       attributes = [(''exposure'', ModelPropAttr (PyInt 5)), (''read_value'', PlainAttr PyNone)] \<rparr>"

section \<open>Publisher (core/publisher.py)\<close>

datatype log_entry = LogDebug string | LogInfo string | LogWarning string | LogError string

text \<open>
  The state of the serve loop of \<open>Publisher.run\<close>: \<open>event\<close> is \<open>self._event.is_set()\<close>,
  \<open>sent\<close> the two-part messages emitted on the \<open>PUB\<close> socket so far, \<open>n_received\<close> the counter \<open>i\<close>,
  \<open>plog\<close> the lines logged. A message is a topic and a payload.
\<close>

record relay =
  event :: bool
  sent :: "(string \<times> pyval) list"
  n_received :: nat
  plog :: "log_entry list"

definition isinstance_str :: "pyval \<Rightarrow> bool" where
  "isinstance_str d = (case d of PyStr s \<Rightarrow> True | _ \<Rightarrow> False)"

text \<open>
  The body of the loop for one received message \<open>(topic, data)\<close>; \<open>exit_keyword\<close> is
  \<open>settings.PUBLISHER_EXIT_KEYWORD\<close>. The test \<open>topic is ""\<close> is taken as equality with
  the empty string: CPython has one empty string object. The text of a logged line is its
  format string, placeholders not filled in.
\<close>

definition serve_step :: "string \<Rightarrow> string \<times> pyval \<Rightarrow> relay \<Rightarrow> relay" where
  "serve_step exit_keyword msg r =
     (case msg of (topic, data) \<Rightarrow>
        (let r1 = r\<lparr> plog := plog r @ [LogDebug ''Got data on topic {topic}'', LogDebug ''{data}''],
                     n_received := n_received r + 1,
                     sent := sent r @ [(topic, data)] \<rparr>
         in if topic = '''' then
              (let r2 = r1\<lparr> plog := plog r1 @ [LogInfo ''Got Broad Topic''] \<rparr>
               in if isinstance_str data \<and> data = PyStr exit_keyword
                  then r2\<lparr> plog := plog r2 @ [LogInfo ''Stopping the Publisiher''], event := True \<rparr>
                  else r2)
            else r1))"

text \<open>
  The loop \<open>while not self._event.is_set()\<close> over the messages that arrive at the \<open>PULL\<close>
  socket, oldest first. It ends \<open>Stopped\<close> when it finds the flag set, and is left
  \<open>Waiting\<close> in \<open>recv_string\<close> when the flag is not set and no message is left; the
  messages it has not received are returned with the state.
\<close>

datatype loop_end = Stopped | Waiting

fun serve_loop :: "string \<Rightarrow> relay \<Rightarrow> (string \<times> pyval) list \<Rightarrow> loop_end \<times> relay \<times> (string \<times> pyval) list" where
  "serve_loop exit_keyword r [] = (if event r then (Stopped, r, []) else (Waiting, r, []))"
| "serve_loop exit_keyword r (m # ms) =
     (if event r then (Stopped, r, m # ms)
      else serve_loop exit_keyword (serve_step exit_keyword m r) ms)"

text \<open>The message that stops the relay: the exit keyword on the broadcast topic.\<close>

definition is_exit :: "string \<Rightarrow> string \<times> pyval \<Rightarrow> bool" where
  "is_exit exit_keyword msg = (msg = ('''', PyStr exit_keyword))"

definition relay0 :: relay where
  "relay0 = \<lparr> event = False, sent = [], n_received = 0, plog = [] \<rparr>"

section \<open>The camera SDK at the boundary\<close>

text \<open>
  Modelled from the spec: the vendor's imaging SDK (pylon) is an external interface. A
  physical device has a friendly name, a model name, registers, and a queue of grab
  results waiting to be retrieved. \<open>ExposureTime = None\<close> stands for a register read
  that ends in the SDK's timeout exception. An \<open>InstantCamera\<close> is the handle the camera
  model keeps in \<open>self._driver\<close>.
\<close>

type_synonym frame = "int list list"

datatype grab_result = GrabSucceeded frame | GrabFailed

datatype grab_strategy = GrabStrategy_OneByOne | GrabStrategy_LatestImageOnly | GrabStrategy_LatestImages

datatype timeout_handling = TimeoutHandling_Return | TimeoutHandling_ThrowException

datatype dtype = uint8 | uint16

record pylon_device =
  GetFriendlyName :: string
  GetModelName :: string
  ExposureTime :: "real option"
  PixelFormat :: string
  MaxNumBuffer :: int
  NumReadyBuffers :: nat
  output_queue :: "grab_result list"

record InstantCamera =
  device :: pylon_device
  IsOpen :: bool
  IsGrabbing :: bool
  strategy :: "grab_strategy option"
  software_trigger :: bool

text \<open>Every call the camera model makes into the SDK, in the order it makes them.\<close>

datatype pylon_call =
    Attach pylon_device
  | Open pylon_device
  | RegisterConfiguration
  | GetDeviceInfo
  | ExposureTime_ToString
  | PixelFormat_GetValue
  | MaxNumBuffer_Value
  | NumReadyBuffers_Value
  | IsGrabbing_call
  | StopGrabbing
  | StartGrabbing grab_strategy
  | ExecuteSoftwareTrigger
  | RetrieveResult int timeout_handling
  | Release

section \<open>Quantities and strings\<close>

text \<open>
  Modelled from the spec: the quantity type is an external library that "supports
  conversion to an arbitrary compatible unit" and errors "if the requested unit is
  incompatible". \<open>m_as\<close> is defined for the units of time the camera uses; a value
  that is no quantity has no \<open>m_as\<close>. \<open>py_int\<close> is Python's \<open>int\<close> of a float: it
  truncates towards zero.
\<close>

definition unit_in_seconds :: "string \<Rightarrow> real option" where
  "unit_in_seconds u =
     (if u = ''s'' then Some 1
      else if u = ''ms'' then Some (1 / 1000)
      else if u = ''us'' then Some (1 / 1000000)
      else None)"

definition m_as :: "pyval \<Rightarrow> string \<Rightarrow> error + real" where
  "m_as q u =
     (case q of
        PyQuantity m from_unit \<Rightarrow>
          (case (unit_in_seconds from_unit, unit_in_seconds u) of
             (Some a, Some b) \<Rightarrow> Inr (m * a / b)
           | _ \<Rightarrow> Inl DimensionalityError)
      | _ \<Rightarrow> Inl (AttributeError ''m_as''))"

definition py_int :: "real \<Rightarrow> int" where
  "py_int x = (if 0 \<le> x then \<lfloor>x\<rfloor> else \<lceil>x\<rceil>)"

text \<open>\<open>str_contains t s\<close> is Python's \<open>s in t\<close> on strings: \<open>s\<close> is a substring of \<open>t\<close>.\<close>

fun starts_with :: "string \<Rightarrow> string \<Rightarrow> bool" where
  "starts_with t [] = True"
| "starts_with [] (c # s) = False"
| "starts_with (a # t) (c # s) = (a = c \<and> starts_with t s)"

fun str_contains :: "string \<Rightarrow> string \<Rightarrow> bool" where
  "str_contains [] s = (s = [])"
| "str_contains (a # t) s = (starts_with (a # t) s \<or> str_contains t s)"

section \<open>BaslerCamera (models/devices/cameras/basler/basler.py)\<close>

text \<open>
  The camera instance. \<open>u_driver\<close> and \<open>u_acquisition_mode\<close> are \<open>_driver\<close> and
  \<open>_acquisition_mode\<close>. \<open>logger\<close> holds the lines logged (the format strings,
  placeholders not filled in) and \<open>sdk_calls\<close> the calls made into the SDK; both only
  grow. \<open>width\<close>, \<open>height\<close>, \<open>current_dtype\<close> and \<open>temp_image\<close> are \<open>None\<close> while
  the attribute is not assigned.
\<close>

record BaslerCamera = model_instance +
  camera :: string
  initial_config :: "(string \<times> pyval) list option"
  u_driver :: "InstantCamera option"
  u_acquisition_mode :: pyval
  friendly_name :: string
  free_run_running :: bool
  fps :: int
  keep_reading :: bool
  width :: "nat option"
  height :: "nat option"
  current_dtype :: "dtype option"
  temp_image :: "frame option"
  logger :: "log_entry list"
  sdk_calls :: "pylon_call list"

text \<open>
  \<open>BaslerCamera.__init__\<close> with the class attribute \<open>_acquisition_mode =
  BaseCamera.MODE_SINGLE_SHOT\<close>. Modelled from the spec: the constructor of the camera base
  class is not among the repository's files; it is taken to keep the camera identifier and
  the initial configuration, to start with an empty configuration store and with no driver
  (\<open>initialize\<close> tests \<open>if not self._driver\<close> before any assignment of its own).
\<close>

definition BaslerCamera_init :: "string \<Rightarrow> (string \<times> pyval) list option \<Rightarrow> BaslerCamera" where
  "BaslerCamera_init cam_id init_conf =
     \<lparr> config = Map.empty, camera = cam_id, initial_config = init_conf, u_driver = None,
       u_acquisition_mode = MODE_SINGLE_SHOT, friendly_name = '''', free_run_running = False,
       fps = 0, keep_reading = False, width = None, height = None, current_dtype = None,
       temp_image = None, logger = [], sdk_calls = [] \<rparr>"

definition log_line :: "log_entry \<Rightarrow> BaslerCamera \<Rightarrow> BaslerCamera" where
  "log_line l cam = cam\<lparr> logger := logger cam @ [l] \<rparr>"

definition sdk_call :: "pylon_call \<Rightarrow> BaslerCamera \<Rightarrow> BaslerCamera" where
  "sdk_call c cam = cam\<lparr> sdk_calls := sdk_calls cam @ [c] \<rparr>"

text \<open>
  A call of a method of \<open>self._driver\<close>: \<open>AttributeError\<close> when \<open>_driver\<close> is \<open>None\<close>,
  else the call is recorded and the handle updated.
\<close>

definition driver_do :: "pylon_call \<Rightarrow> (InstantCamera \<Rightarrow> InstantCamera) \<Rightarrow> BaslerCamera \<Rightarrow> (unit, BaslerCamera) res" where
  "driver_do c upd cam =
     (case u_driver cam of
        None \<Rightarrow> (Inl (AttributeError ''NoneType object has no attribute''), cam)
      | Some d \<Rightarrow> (Inr (), sdk_call c (cam\<lparr> u_driver := Some (upd d) \<rparr>)))"

subsection \<open>initialize\<close>

text \<open>
  The loop \<open>for device in devices\<close>: for each device whose friendly name contains
  \<open>self.camera\<close>, a new \<open>InstantCamera\<close> is made, attached to the device and opened, and
  \<open>_driver\<close> and \<open>friendly_name\<close> are assigned. The loop has no \<open>break\<close>.
\<close>

definition matches :: "BaslerCamera \<Rightarrow> pylon_device \<Rightarrow> bool" where
  "matches cam dev = str_contains (GetFriendlyName dev) (camera cam)"

definition attach_and_open :: "pylon_device \<Rightarrow> BaslerCamera \<Rightarrow> BaslerCamera" where
  "attach_and_open dev cam =
     cam\<lparr> u_driver := Some \<lparr> device = dev, IsOpen = True, IsGrabbing = False,
                              strategy = None, software_trigger = False \<rparr>,
          friendly_name := GetFriendlyName dev,
          sdk_calls := sdk_calls cam @ [Attach dev, Open dev] \<rparr>"

fun attach_loop :: "pylon_device list \<Rightarrow> BaslerCamera \<Rightarrow> BaslerCamera" where
  "attach_loop [] cam = cam"
| "attach_loop (dev # rest) cam =
     attach_loop rest (if matches cam dev then attach_and_open dev cam else cam)"

text \<open>
  \<open>initialize\<close>, with the result of \<open>EnumerateDevices()\<close> for an argument, up to the
  registration of the software trigger. The three calls that follow in the source
  (\<open>config.fetch_all\<close>, \<open>config.update\<close>, \<open>config.apply_all\<close>) are methods of the
  configuration store, which is not among the repository's files; they are left out.
\<close>

definition initialize :: "pylon_device list \<Rightarrow> BaslerCamera \<Rightarrow> (unit, BaslerCamera) res" where
  "initialize devices cam0 =
     (let cam = log_line (LogDebug ''Initializing Basler Camera'') cam0 in
      if length devices = 0 then (Inl (CameraNotFound ''No camera found''), cam)
      else
        (let cam1 = attach_loop devices cam in
         case u_driver cam1 of
           None \<Rightarrow>
             (Inl (CameraNotFound ''Basler {self.camera} not found. Please check if the camera is connected''),
              log_line (LogError ''Basler {self.camera} not found. Please check if the camera is connected'') cam1)
         | Some d \<Rightarrow>
             driver_do RegisterConfiguration (\<lambda>d. d\<lparr> software_trigger := True \<rparr>)
               (log_line (LogInfo ''Loaded camera {self._driver.GetDeviceInfo().GetModelName()}'')
                  (sdk_call GetDeviceInfo cam1))))"

text \<open>What the claim about \<open>initialize\<close> speaks of: the devices opened, and the first match.\<close>

fun opened_devices :: "pylon_call list \<Rightarrow> pylon_device list" where
  "opened_devices [] = []"
| "opened_devices (Open dev # cs) = dev # opened_devices cs"
| "opened_devices (c # cs) = opened_devices cs"

definition first_match :: "BaslerCamera \<Rightarrow> pylon_device list \<Rightarrow> pylon_device option" where
  "first_match cam devices = find (matches cam) devices"

definition attached_device :: "BaslerCamera \<Rightarrow> pylon_device option" where
  "attached_device cam = map_option device (u_driver cam)"

subsection \<open>The camera's Features\<close>

text \<open>
  Reading and writing a Feature of the camera class. Every Feature of the camera is made by
  \<open>@Feature()\<close> with no option, so it is no setting and nothing reads the value the write
  leaves on the descriptor; the descriptor is dropped from the result.
\<close>

definition read_feature :: "BaslerCamera Feature \<Rightarrow> BaslerCamera \<Rightarrow> (pyval, BaslerCamera) res" where
  "read_feature f cam = (case Feature_get f cam of (r, (f', cam')) \<Rightarrow> (r, cam'))"

definition write_feature :: "BaslerCamera Feature \<Rightarrow> BaslerCamera \<Rightarrow> pyval \<Rightarrow> (unit, BaslerCamera) res" where
  "write_feature f cam v = (case Feature_set f cam v of (r, (f', cam')) \<Rightarrow> (r, cam'))"

text \<open>
  The getter of \<open>exposure\<close> (lines 68 to 78). The register read is recorded in
  \<open>sdk_calls\<close> whether it returns or times out.
\<close>

definition exposure_fget :: "BaslerCamera \<Rightarrow> (pyval, BaslerCamera) res" where
  "exposure_fget cam =
     (case config_getitem (config cam) ''exposure'' of
        Inl e \<Rightarrow> (Inl e, cam)
      | Inr c \<Rightarrow>
          if c \<noteq> PyNone then (Inr c, cam)
          else
            (case u_driver cam of
               None \<Rightarrow> (Inl (AttributeError ''NoneType object has no attribute''), cam)
             | Some d \<Rightarrow>
                 (case ExposureTime (device d) of
                    Some x \<Rightarrow> (Inr (PyQuantity x ''us''), sdk_call ExposureTime_ToString cam)
                  | None \<Rightarrow>
                      (let cam1 = log_line (LogError ''Timeout getting the exposure'')
                                    (sdk_call ExposureTime_ToString cam)
                       in (config_getitem (config cam1) ''exposure'', cam1)))))"

text \<open>
  The Feature \<open>exposure\<close> as \<open>@Feature()\<close> builds it from the getter. The setter that
  \<open>@exposure.setter\<close> adds calls \<open>config.upgrade\<close> without \<open>force\<close>, whose behaviour the
  repository's files do not give; it is left out. A read never looks at the setter.
\<close>

definition exposure :: "BaslerCamera Feature" where
  "exposure = Feature_init (Some exposure_fget) None None None"

text \<open>The Feature \<open>acquisition_mode\<close>: getter (line 111) and setter (lines 114 to 125).\<close>

definition acquisition_mode_fget :: "BaslerCamera \<Rightarrow> (pyval, BaslerCamera) res" where
  "acquisition_mode_fget cam = (Inr (u_acquisition_mode cam), cam)"

definition acquisition_mode_fset :: "BaslerCamera \<Rightarrow> pyval \<Rightarrow> (unit, BaslerCamera) res" where
  "acquisition_mode_fset cam0 mode =
     (case u_driver cam0 of
        None \<Rightarrow> (Inl (AttributeError ''NoneType object has no attribute''), cam0)
      | Some d \<Rightarrow>
          (let cam1 = sdk_call IsGrabbing_call cam0;
               cam2 = (if IsGrabbing d
                       then log_line (LogWarning ''{self} Changing acquisition mode for a grabbing camera'') cam1
                       else cam1);
               cam3 = log_line (LogInfo ''{self} Setting acquisition mode to {mode}'') cam2
           in if mode = MODE_CONTINUOUS then
                (Inr (), (log_line (LogDebug ''Setting buffer to {self._driver.MaxNumBuffer.Value}'')
                            (sdk_call MaxNumBuffer_Value cam3))\<lparr> u_acquisition_mode := mode \<rparr>)
              else if mode = MODE_SINGLE_SHOT then
                (Inr (), (log_line (LogDebug ''Setting buffer to 1'') cam3)\<lparr> u_acquisition_mode := mode \<rparr>)
              else (Inr (), cam3)))"

definition acquisition_mode :: "BaslerCamera Feature" where
  "acquisition_mode = Feature_init (Some acquisition_mode_fget) (Some acquisition_mode_fset) None None"

text \<open>The Feature \<open>pixel_format\<close>: the getter (line 163).\<close>

definition pixel_format_fget :: "BaslerCamera \<Rightarrow> (pyval, BaslerCamera) res" where
  "pixel_format_fget cam =
     (case u_driver cam of
        None \<Rightarrow> (Inl (AttributeError ''NoneType object has no attribute''), cam)
      | Some d \<Rightarrow> (Inr (PyStr (PixelFormat (device d))), sdk_call PixelFormat_GetValue cam))"

definition pixel_format :: "BaslerCamera Feature" where
  "pixel_format = Feature_init (Some pixel_format_fget) None None None"

subsection \<open>trigger_camera\<close>

definition start_grabbing :: "grab_strategy \<Rightarrow> BaslerCamera \<Rightarrow> (unit, BaslerCamera) res" where
  "start_grabbing s cam = driver_do (StartGrabbing s) (\<lambda>d. d\<lparr> IsGrabbing := True, strategy := Some s \<rparr>) cam"

definition stop_grabbing :: "BaslerCamera \<Rightarrow> (unit, BaslerCamera) res" where
  "stop_grabbing cam = driver_do StopGrabbing (\<lambda>d. d\<lparr> IsGrabbing := False \<rparr>) cam"

text \<open>
  The choice of \<open>current_dtype\<close>: \<open>self.pixel_format\<close> is read once, and once more when it
  is not \<open>'Mono8'\<close>.
\<close>

definition select_dtype :: "BaslerCamera \<Rightarrow> (unit, BaslerCamera) res" where
  "select_dtype cam =
     bind_res (read_feature pixel_format cam) (\<lambda>pf1 cam1.
       if pf1 = PyStr ''Mono8'' then (Inr (), cam1\<lparr> current_dtype := Some uint8 \<rparr>)
       else
         bind_res (read_feature pixel_format cam1) (\<lambda>pf2 cam2.
           if pf2 = PyStr ''Mono12'' then (Inr (), cam2\<lparr> current_dtype := Some uint16 \<rparr>)
           else (Inr (), cam2)))"

definition trigger_camera :: "BaslerCamera \<Rightarrow> (unit, BaslerCamera) res" where
  "trigger_camera cam0 =
     (case u_driver cam0 of
        None \<Rightarrow> (Inl (AttributeError ''NoneType object has no attribute''), cam0)
      | Some d \<Rightarrow>
          (let cam1 = sdk_call IsGrabbing_call cam0;
               cam2 = (if IsGrabbing d then log_line (LogWarning ''Triggering a grabbing camera'') cam1
                       else cam1)
           in bind_res (stop_grabbing cam2) (\<lambda>u cam3.
              bind_res (read_feature acquisition_mode cam3) (\<lambda>mode cam4.
              bind_res
                (if mode = MODE_CONTINUOUS then
                   bind_res (start_grabbing GrabStrategy_OneByOne cam4) (\<lambda>u c.
                     (Inr (), log_line (LogInfo ''Grab Strategy: One by One'') c))
                 else if mode = MODE_SINGLE_SHOT then
                   bind_res (start_grabbing GrabStrategy_LatestImageOnly cam4) (\<lambda>u c.
                     (Inr (), log_line (LogInfo ''Grab Strategy: Latest Image'') c))
                 else if mode = MODE_LAST then start_grabbing GrabStrategy_LatestImages cam4
                 else (Inl (CameraException ''Unknown acquisition mode''), cam4))
                (\<lambda>u cam5.
              bind_res (select_dtype cam5) (\<lambda>u cam6.
              bind_res (driver_do ExecuteSoftwareTrigger (\<lambda>d. d) cam6) (\<lambda>u cam7.
                (Inr (), log_line (LogInfo ''Executed Software Trigger'') cam7))))))))"

subsection \<open>read_camera\<close>

text \<open>
  \<open>self._driver.RetrieveResult(int(self.exposure.m_as('ms')) + 100, handling)\<close>: the
  method is looked up on \<open>_driver\<close> first, then the argument is computed from the Feature
  \<open>exposure\<close>, then the SDK is called. The SDK hands out the head of the device's queue;
  with an empty queue the wait times out, which returns nothing under
  \<open>TimeoutHandling_Return\<close> and raises under \<open>TimeoutHandling_ThrowException\<close>.
\<close>

definition retrieve_result :: "timeout_handling \<Rightarrow> BaslerCamera \<Rightarrow> (grab_result option, BaslerCamera) res" where
  "retrieve_result th cam =
     (case u_driver cam of
        None \<Rightarrow> (Inl (AttributeError ''NoneType object has no attribute''), cam)
      | Some d0 \<Rightarrow>
          bind_res (read_feature exposure cam) (\<lambda>e cam1.
            case m_as e ''ms'' of
              Inl err \<Rightarrow> (Inl err, cam1)
            | Inr ms \<Rightarrow>
                (case u_driver cam1 of
                   None \<Rightarrow> (Inl (AttributeError ''NoneType object has no attribute''), cam1)
                 | Some d \<Rightarrow>
                     (let cam2 = sdk_call (RetrieveResult (py_int ms + 100) th) cam1 in
                      case output_queue (device d) of
                        [] \<Rightarrow>
                          (case th of
                             TimeoutHandling_Return \<Rightarrow> (Inr None, cam2)
                           | TimeoutHandling_ThrowException \<Rightarrow> (Inl TimeoutException, cam2))
                      | g # rest \<Rightarrow>
                          (Inr (Some g),
                           cam2\<lparr> u_driver := Some (d\<lparr> device := (device d)\<lparr> output_queue := rest \<rparr> \<rparr>) \<rparr>)))))"

text \<open>
  The loop of the continuous branch, \<open>for i in range(num_buffers)\<close>. The list \<open>img\<close> is
  \<open>[np.zeros(...)] * num_buffers\<close>, one array object held \<open>num_buffers\<close> times, so
  every \<open>img[i][:, :] = ...\<close> writes into that one array: the loop carries its content
  (\<open>shared\<close>) and the count \<open>tot_frames\<close>.
\<close>

fun drain :: "nat \<Rightarrow> nat \<Rightarrow> frame \<Rightarrow> BaslerCamera \<Rightarrow> (nat \<times> frame, BaslerCamera) res" where
  "drain 0 tot_frames shared cam = (Inr (tot_frames, shared), cam)"
| "drain (Suc n) tot_frames shared cam =
     (case retrieve_result TimeoutHandling_ThrowException cam of
        (Inl e, cam1) \<Rightarrow> (Inl e, cam1)
      | (Inr (Some (GrabSucceeded a)), cam1) \<Rightarrow>
          drain n (tot_frames + 1) (transpose a) (sdk_call Release cam1)
      | (Inr _, cam1) \<Rightarrow>
          drain n tot_frames shared (log_line (LogWarning ''{self}: Grabbing failed'') cam1))"

definition read_camera :: "BaslerCamera \<Rightarrow> (frame list, BaslerCamera) res" where
  "read_camera cam0 =
     bind_res (read_feature acquisition_mode cam0) (\<lambda>mode cam1.
       if mode = MODE_SINGLE_SHOT \<or> mode = MODE_LAST then
         bind_res (retrieve_result TimeoutHandling_Return
                     (log_line (LogInfo ''Grabbing mode: {mode}'') cam1)) (\<lambda>grab cam2.
           (let (img, cam3) =
                  (case grab of
                     Some (GrabSucceeded a) \<Rightarrow>
                       ([transpose a], sdk_call Release (cam2\<lparr> temp_image := Some (transpose a) \<rparr>))
                   | _ \<Rightarrow> ([], cam2))
            in if mode = MODE_SINGLE_SHOT
               then bind_res (stop_grabbing cam3) (\<lambda>u cam4. (Inr img, cam4))
               else (Inr img, cam3)))
       else
         (case u_driver cam1 of
            None \<Rightarrow> (Inl (AttributeError ''NoneType object has no attribute''), cam1)
          | Some d \<Rightarrow>
              if \<not> IsGrabbing d then
                (Inl (WrongCameraState ''You need to trigger the camera before reading''),
                 sdk_call IsGrabbing_call cam1)
              else
                (let cam2 = sdk_call NumReadyBuffers_Value (sdk_call IsGrabbing_call cam1);
                     num_buffers = NumReadyBuffers (device d)
                 in if num_buffers \<noteq> 0 then
                      (case (width cam2, height cam2, current_dtype cam2) of
                         (Some w, Some h, Some t) \<Rightarrow>
                           bind_res (drain num_buffers 0 (replicate w (replicate h 0)) cam2)
                             (\<lambda>(tot_frames, shared) cam3.
                                (let img = replicate tot_frames shared
                                 in (Inr img,
                                     if length img \<ge> 1 then cam3\<lparr> temp_image := Some (last img) \<rparr>
                                     else cam3)))
                       | _ \<Rightarrow> (Inl (AttributeError ''width, height or current_dtype''), cam2))
                    else (Inr [], cam2))))"

subsection \<open>start_free_run, stop_free_run, stop_camera\<close>

definition start_free_run :: "BaslerCamera \<Rightarrow> (unit, BaslerCamera) res" where
  "start_free_run cam =
     (if free_run_running cam then
        (Inr (), log_line (LogInfo ''Trying to start again the free acquisition of camera {self}'') cam)
      else
        (let cam1 = log_line (LogInfo ''Starting a free run acquisition of camera {self}'') cam;
             cam2 = cam1\<lparr> free_run_running := True \<rparr>;
             cam3 = log_line (LogDebug ''First frame of a free_run'') cam2
         in bind_res (write_feature acquisition_mode cam3 MODE_CONTINUOUS) (\<lambda>u cam4.
              trigger_camera cam4)))"

definition stop_free_run :: "BaslerCamera \<Rightarrow> (unit, BaslerCamera) res" where
  "stop_free_run cam =
     bind_res (stop_grabbing cam) (\<lambda>u cam1. (Inr (), cam1\<lparr> free_run_running := False \<rparr>))"

definition stop_camera :: "BaslerCamera \<Rightarrow> (unit, BaslerCamera) res" where
  "stop_camera cam = stop_grabbing cam"

text \<open>The number of software triggers issued so far.\<close>

definition triggers :: "BaslerCamera \<Rightarrow> nat" where
  "triggers cam = count_list (sdk_calls cam) ExecuteSoftwareTrigger"

text \<open>
  A sequence of assignments \<open>cam.acquisition_mode = v\<close>, one for each value of the list;
  an assignment that raises leaves the camera as it was when the exception left the setter,
  and the next assignment goes on from there.
\<close>

fun assign_modes :: "pyval list \<Rightarrow> BaslerCamera \<Rightarrow> BaslerCamera" where
  "assign_modes [] cam = cam"
| "assign_modes (v # vs) cam = assign_modes vs (snd (write_feature acquisition_mode cam v))"

section \<open>Devices and cameras to run the model on\<close>

text \<open>
  Two devices whose friendly names both contain \<open>acA\<close>, one that does not, and a camera
  object configured with the identifier \<open>acA\<close>; \<open>cam_open\<close> is that camera after
  \<open>initialize\<close> has found \<open>devA\<close> alone.
\<close>

definition devA :: pylon_device where
  "devA = \<lparr> GetFriendlyName = ''Basler acA1920 (1)'', GetModelName = ''acA1920'',
            ExposureTime = Some 10000, PixelFormat = ''Mono8'', MaxNumBuffer = 10,
            NumReadyBuffers = 0, output_queue = [] \<rparr>"

definition devB :: pylon_device where
  "devB = devA\<lparr> GetFriendlyName := ''Basler acA1920 (2)'' \<rparr>"

definition devOther :: pylon_device where
  "devOther = devA\<lparr> GetFriendlyName := ''Webcam'' \<rparr>"

definition cam0 :: BaslerCamera where
  "cam0 = BaslerCamera_init ''acA'' None"

definition cam_open :: BaslerCamera where
  "cam_open = snd (initialize [devA] cam0)"

text \<open>
  Cameras on \<open>devA\<close> after \<open>initialize\<close>: with an exposure in the configuration store,
  with the entry present but \<open>None\<close>, with the entry \<open>None\<close> and a device whose exposure
  register times out, in \<open>MODE_LAST\<close>, and after the assignment of \<open>MODE_CONTINUOUS\<close>
  through the Feature.
\<close>

definition cam_cached :: BaslerCamera where
  "cam_cached = cam_open\<lparr> config := [''exposure'' \<mapsto> PyQuantity 5000 ''us''] \<rparr>"

definition cam_uncached :: BaslerCamera where
  "cam_uncached = cam_open\<lparr> config := [''exposure'' \<mapsto> PyNone] \<rparr>"

definition cam_timeout :: BaslerCamera where
  "cam_timeout =
     cam_uncached\<lparr> u_driver := Some \<lparr> device = devA\<lparr> ExposureTime := None \<rparr>, IsOpen = True,
                                       IsGrabbing = False, strategy = None,
                                       software_trigger = True \<rparr> \<rparr>"

definition cam_last :: BaslerCamera where
  "cam_last = cam_cached\<lparr> u_acquisition_mode := MODE_LAST \<rparr>"

definition cam_continuous :: BaslerCamera where
  "cam_continuous = snd (write_feature acquisition_mode cam_cached MODE_CONTINUOUS)"

section \<open>Properties\<close>

subsection \<open>Publisher: the serve loop\<close>

lemma serve_step_exit:
  "sent (serve_step kw ('''', PyStr kw) r) = sent r @ [('''', PyStr kw)] \<and>
   event (serve_step kw ('''', PyStr kw) r)"
  by (simp add: serve_step_def isinstance_str_def Let_def)

lemma serve_step_other:
  "\<not> is_exit kw msg \<Longrightarrow>
   sent (serve_step kw msg r) = sent r @ [msg] \<and> event (serve_step kw msg r) = event r"
  by (cases msg) (auto simp add: serve_step_def isinstance_str_def Let_def is_exit_def)

lemma serve_loop_prefix:
  "\<not> event r \<Longrightarrow> \<forall>m \<in> set pre. \<not> is_exit kw m \<Longrightarrow>
   serve_loop kw r (pre @ ms) = serve_loop kw (fold (serve_step kw) pre r) ms
   \<and> \<not> event (fold (serve_step kw) pre r)
   \<and> sent (fold (serve_step kw) pre r) = sent r @ pre"
proof (induction pre arbitrary: r)
  case Nil
  then show ?case by simp
next
  case (Cons m pre)
  have a: "\<not> is_exit kw m" using Cons.prems by simp
  have e: "\<not> event (serve_step kw m r)" using serve_step_other[OF a] Cons.prems by simp
  have s: "sent (serve_step kw m r) = sent r @ [m]" using serve_step_other[OF a] by simp
  have "\<forall>m \<in> set pre. \<not> is_exit kw m" using Cons.prems by simp
  from Cons.IH[OF e this] show ?case using Cons.prems s by simp
qed

lemma serve_loop_stopped: "event r \<Longrightarrow> serve_loop kw r ms = (Stopped, r, ms)"
  by (cases ms) auto

lemma serve_loop_exit:
  assumes "\<not> event r" and "\<forall>m \<in> set pre. \<not> is_exit kw m"
  shows "\<exists>r'. serve_loop kw r (pre @ ('''', PyStr kw) # rest) = (Stopped, r', rest)
           \<and> sent r' = sent r @ pre @ [('''', PyStr kw)] \<and> event r'"
proof -
  let ?r1 = "fold (serve_step kw) pre r"
  let ?r2 = "serve_step kw ('''', PyStr kw) ?r1"
  have p: "serve_loop kw r (pre @ ('''', PyStr kw) # rest) = serve_loop kw ?r1 (('''', PyStr kw) # rest)"
    and ne: "\<not> event ?r1" and s1: "sent ?r1 = sent r @ pre"
    using serve_loop_prefix[OF assms, of "('''', PyStr kw) # rest"] by simp_all
  have "serve_loop kw ?r1 (('''', PyStr kw) # rest) = serve_loop kw ?r2 rest"
    using ne by simp
  also have "\<dots> = (Stopped, ?r2, rest)"
    using serve_step_exit[of kw ?r1] by (simp add: serve_loop_stopped)
  finally have "serve_loop kw r (pre @ ('''', PyStr kw) # rest) = (Stopped, ?r2, rest)"
    using p by simp
  then show ?thesis using serve_step_exit[of kw ?r1] s1 by simp
qed

text \<open>
  C8. A message on the empty topic whose payload is the exit keyword is re-emitted once and
  sets the stop flag; any other message is re-emitted as it is and leaves the flag alone, so
  the loop goes on to the next message. When the exit message arrives after messages that
  are not exit messages, the loop ends (\<open>Stopped\<close>): everything up to and including the
  exit message has been emitted, in order, each once, and the messages behind it are not
  received.
\<close>

theorem C8_relay_shutdown:
  "sent (serve_step kw ('''', PyStr kw) r) = sent r @ [('''', PyStr kw)]
   \<and> event (serve_step kw ('''', PyStr kw) r)
   \<and> (\<not> is_exit kw msg \<longrightarrow>
        sent (serve_step kw msg r) = sent r @ [msg]
        \<and> event (serve_step kw msg r) = event r
        \<and> (\<not> event r \<longrightarrow> serve_loop kw r (msg # ms) = serve_loop kw (serve_step kw msg r) ms))
   \<and> (\<not> event r \<and> (\<forall>m \<in> set pre. \<not> is_exit kw m) \<longrightarrow>
        fst (serve_loop kw r (pre @ ('''', PyStr kw) # rest)) = Stopped
        \<and> snd (snd (serve_loop kw r (pre @ ('''', PyStr kw) # rest))) = rest
        \<and> sent (fst (snd (serve_loop kw r (pre @ ('''', PyStr kw) # rest))))
            = sent r @ pre @ [('''', PyStr kw)]
        \<and> event (fst (snd (serve_loop kw r (pre @ ('''', PyStr kw) # rest)))))"
proof (intro conjI impI)
  show "sent (serve_step kw ('''', PyStr kw) r) = sent r @ [('''', PyStr kw)]"
    using serve_step_exit by simp
  show "event (serve_step kw ('''', PyStr kw) r)"
    using serve_step_exit by simp
next
  assume a: "\<not> is_exit kw msg"
  show "sent (serve_step kw msg r) = sent r @ [msg]" using serve_step_other[OF a] by simp
  show "event (serve_step kw msg r) = event r" using serve_step_other[OF a] by simp
  assume "\<not> event r"
  then show "serve_loop kw r (msg # ms) = serve_loop kw (serve_step kw msg r) ms" by simp
next
  assume h: "\<not> event r \<and> (\<forall>m \<in> set pre. \<not> is_exit kw m)"
  then obtain r' where r': "serve_loop kw r (pre @ ('''', PyStr kw) # rest) = (Stopped, r', rest)"
      "sent r' = sent r @ pre @ [('''', PyStr kw)]" "event r'"
    using serve_loop_exit[of r pre kw rest] by blast
  show "fst (serve_loop kw r (pre @ ('''', PyStr kw) # rest)) = Stopped" using r' by simp
  show "snd (snd (serve_loop kw r (pre @ ('''', PyStr kw) # rest))) = rest" using r' by simp
  show "sent (fst (snd (serve_loop kw r (pre @ ('''', PyStr kw) # rest))))
          = sent r @ pre @ [('''', PyStr kw)]" using r' by simp
  show "event (fst (snd (serve_loop kw r (pre @ ('''', PyStr kw) # rest))))" using r' by simp
qed

theorem C8_relay_shutdown_witness:
  "\<not> is_exit ''exit'' (''t'', PyInt 3)
   \<and> \<not> event relay0
   \<and> sent (serve_step ''exit'' (''t'', PyInt 3) relay0) = [(''t'', PyInt 3)]
   \<and> \<not> event (serve_step ''exit'' (''t'', PyInt 3) relay0)
   \<and> fst (serve_loop ''exit'' relay0
            [(''t'', PyInt 3), ('''', PyStr ''hello''), (''x'', PyStr ''exit''),
             ('''', PyStr ''exit''), (''t'', PyInt 4)]) = Stopped
   \<and> snd (snd (serve_loop ''exit'' relay0
            [(''t'', PyInt 3), ('''', PyStr ''hello''), (''x'', PyStr ''exit''),
             ('''', PyStr ''exit''), (''t'', PyInt 4)])) = [(''t'', PyInt 4)]
   \<and> sent (fst (snd (serve_loop ''exit'' relay0
            [(''t'', PyInt 3), ('''', PyStr ''hello''), (''x'', PyStr ''exit''),
             ('''', PyStr ''exit''), (''t'', PyInt 4)])))
       = [(''t'', PyInt 3), ('''', PyStr ''hello''), (''x'', PyStr ''exit''), ('''', PyStr ''exit'')]"
  using C8_relay_shutdown[of "''exit''" relay0 "(''t'', PyInt 3)" "[]"
          "[(''t'', PyInt 3), ('''', PyStr ''hello''), (''x'', PyStr ''exit'')]" "[(''t'', PyInt 4)]"]
  by (simp add: relay0_def is_exit_def serve_step_def isinstance_str_def Let_def)

subsection \<open>Model: \<open>_collect_properties\<close>\<close>

lemma collect_items_strs: "collect_items (map (\<lambda>(n, a). StrItem n) xs) m = (Inr (), m)"
  by (induction xs) auto

lemma collect_properties_noop: "collect_properties m = (Inr (), m)"
  by (simp add: collect_properties_def dir_py_def collect_items_strs)

text \<open>
  C4. The claim says that \<open>_collect_properties\<close> stores a snapshot of every
  \<open>ModelProp\<close>-bound attribute in \<open>_properties\<close>, which is then not empty. The code asks
  \<open>isinstance(item, ModelProp)\<close> of the attribute's name, a string, so the body of the loop
  never runs: on a model whose class declares the \<open>ModelProp\<close> \<open>exposure\<close> the call
  returns with the instance unchanged and \<open>_properties\<close> still empty.
\<close>

theorem C4_collect_properties_collects_nothing:
  "map_of (attributes model_with_prop) ''exposure'' = Some (ModelPropAttr (PyInt 5))
   \<and> collect_properties model_with_prop = (Inr (), model_with_prop)
   \<and> u_properties (snd (collect_properties model_with_prop)) = []"
  by (simp add: collect_properties_noop) (simp add: model_with_prop_def)

subsection \<open>The property registry\<close>

text \<open>
  The two ways of \<open>__set_name__\<close>. A registry that carries the mark is written in
  place, whichever class the lookup found it on; a registry without the mark is copied, the
  copy is marked and given to the owner. The mark is the same for every class, so a
  registry that one class has copied is written in place by all its subclasses.
\<close>

lemma set_name_marked_mutates_in_place:
  assumes "getattr_model_props w owner = Inr a" and "heap w a = Some r"
    and "model_name r = Some object_qualname"
  shows "set_name d owner nm w
           = Inr (w\<lparr> heap := (heap w)(a \<mapsto> r\<lparr> entries := (entries r)(nm \<mapsto> d) \<rparr>) \<rparr>)"
  using assms
  by (auto simp add: set_name_def getattr_model_props_def split: option.splits)

lemma set_name_unmarked_copies_and_marks:
  assumes "getattr_model_props w owner = Inr a" and "heap w a = Some r"
    and "model_name r \<noteq> Some object_qualname"
    and "classes w owner = Some c" and "mro c = owner # rest"
  shows "set_name d owner nm w
           = Inr (w\<lparr> heap := (heap w)(next_ref w \<mapsto>
                                \<lparr> entries = (entries r)(nm \<mapsto> d),
                                  model_name = Some object_qualname \<rparr>),
                      next_ref := Suc (next_ref w),
                      classes := (classes w)(owner \<mapsto> c\<lparr> own_model_props := Some (next_ref w) \<rparr>) \<rparr>)"
  using assms
  by (simp add: set_name_def getattr_model_props_def Let_def)

text \<open>
  C1. The claim says that \<open>B\<close>'s registry holds \<open>pa\<close> and \<open>pb\<close> but not \<open>pc\<close>, and that
  a declaration on a subclass never changes the registry of its parent or of a sibling.
  \<open>__set_name__\<close> compares the registry's \<open>model_name\<close> with \<open>object.__qualname__\<close>, the
  name of the builtin \<open>object\<close>, and writes that same name on the copy: once \<open>A\<close> has
  declared \<open>pa\<close>, the registry \<open>A\<close> owns carries the mark, no subclass copies it, and
  \<open>A\<close>, \<open>B\<close> and \<open>C\<close> share one registry object that holds \<open>pa\<close>, \<open>pb\<close> and \<open>pc\<close>.
\<close>

theorem C1_registry_shared_with_parent_and_sibling:
  "(case world_A of Inl e \<Rightarrow> False
    | Inr w \<Rightarrow> registered w ''A'' ''pa'' \<and> \<not> registered w ''A'' ''pb'' \<and> \<not> registered w ''A'' ''pc'')
   \<and> (case world_ABC of Inl e \<Rightarrow> False
       | Inr w \<Rightarrow>
           registered w ''B'' ''pa'' \<and> registered w ''B'' ''pb'' \<and> registered w ''B'' ''pc''
           \<and> registered w ''C'' ''pb''
           \<and> registered w ''A'' ''pb'' \<and> registered w ''A'' ''pc''
           \<and> getattr_model_props w ''B'' = getattr_model_props w ''A''
           \<and> getattr_model_props w ''C'' = getattr_model_props w ''A'')"
  by (simp add: world_ABC_def world_AB_def world_A_def class_statement_def root_world_def
        set_name_def getattr_model_props_def object_qualname_def registered_def registry_of_def)

subsection \<open>Descriptors: what a write and a read leave behind\<close>

lemma ModelProp_set_mirrors_under_name:
  "fst (ModelProp_set p inst v) = Inr () \<Longrightarrow>
   config (snd (snd (ModelProp_set p inst v))) (ModelProp.name p) = Some v"
  by (auto simp add: ModelProp_set_def split: option.splits prod.splits sum.splits)

lemma Feature_set_mirrors_cached_under_name:
  "fst (Feature_set f inst v) = Inr () \<Longrightarrow>
   config (snd (snd (Feature_set f inst v))) (Feature.name f)
     = Some (cached (fst (snd (Feature_set f inst v))))"
  by (auto simp add: Feature_set_def split: option.splits prod.splits sum.splits if_splits)

lemma Feature_set_plain_caches_value:
  "fst (Feature_set f inst v) = Inr () \<Longrightarrow> \<not> (is_setting f \<and> force_update f = v) \<Longrightarrow>
   cached (fst (snd (Feature_set f inst v))) = v"
  by (auto simp add: Feature_set_def split: option.splits prod.splits sum.splits if_splits)

lemma Feature_set_forced_caches_reread:
  "fst (Feature_set f inst v) = Inr () \<Longrightarrow> is_setting f \<Longrightarrow> force_update f = v \<Longrightarrow>
   \<exists>g. Feature.fget f = Some g \<and> fst (g inst) = Inr (cached (fst (snd (Feature_set f inst v))))"
  by (auto simp add: Feature_set_def split: option.splits prod.splits sum.splits if_splits)

lemma Feature_get_cached_setting:
  "is_setting f \<Longrightarrow> cached f \<noteq> force_update f \<Longrightarrow> Feature.fget f = Some g \<Longrightarrow>
   Feature_get f inst = (Inr (cached f), (f, inst))"
  by (simp add: Feature_get_def)

lemma Feature_get_uncached_setting:
  assumes "is_setting f" and "cached f = force_update f" and "Feature.fget f = Some g"
    and "g inst = (Inr v, inst')"
  shows "Feature_get f inst
           = (Inr v, (f, inst'\<lparr> config := (config inst')(Feature.name f \<mapsto> v) \<rparr>))"
  using assms by (simp add: Feature_get_def)

lemma Feature_get_keeps_descriptor: "fst (snd (Feature_get f inst)) = f"
  by (auto simp add: Feature_get_def split: option.splits prod.splits sum.splits)

text \<open>
  C2. The claim says that after \<open>instance.P = v\<close> the configuration store holds the entry
  \<open>P -> v'\<close>. The value is the one the claim names, but the key is not: \<open>__set_name__\<close>
  registers the descriptor under \<open>P\<close> and never assigns \<open>self.name\<close>, which stays the
  class attribute \<open>''\<close>, and \<open>__set__\<close> mirrors under \<open>self.name\<close>. For a \<open>ModelProp\<close>
  and a \<open>Feature\<close> declared as \<open>exposure\<close>, a write of 5 leaves \<open>'' -> 5\<close> in the store
  and no entry \<open>exposure\<close>.
\<close>

theorem C2_write_is_mirrored_under_the_empty_name:
  "(case class_statement ''Cam'' ''Model''
           [(''exposure'', ModelProp_init (Some probe_getter) (Some probe_setter))]
           (root_world ''Model'') of
      Inl e \<Rightarrow> False | Inr w \<Rightarrow> registered w ''Cam'' ''exposure'')
   \<and> fst (ModelProp_set (ModelProp_init (Some probe_getter) (Some probe_setter)) probe0 (PyInt 5)) = Inr ()
   \<and> config (snd (snd (ModelProp_set (ModelProp_init (Some probe_getter) (Some probe_setter))
                        probe0 (PyInt 5)))) ''exposure'' = None
   \<and> config (snd (snd (ModelProp_set (ModelProp_init (Some probe_getter) (Some probe_setter))
                        probe0 (PyInt 5)))) '''' = Some (PyInt 5)
   \<and> fst (Feature_set (Feature_init (Some probe_getter) (Some probe_setter) None None) probe0 (PyInt 5)) = Inr ()
   \<and> config (snd (snd (Feature_set (Feature_init (Some probe_getter) (Some probe_setter) None None)
                        probe0 (PyInt 5)))) ''exposure'' = None
   \<and> config (snd (snd (Feature_set (Feature_init (Some probe_getter) (Some probe_setter) None None)
                        probe0 (PyInt 5)))) '''' = Some (PyInt 5)"
  by (simp add: class_statement_def root_world_def set_name_def getattr_model_props_def
        object_qualname_def registered_def registry_of_def ModelProp_set_def ModelProp_init_def
        Feature_set_def Feature_init_def probe_setter_def probe0_def)

text \<open>
  C3. The claim says that two reads of a Feature built with \<open>setting=True\<close>, with no write
  between them, call the getter at most once and that the second read returns the cached
  value. \<open>__get__\<close> never assigns \<open>self.value\<close>: on a Feature built with \<open>setting=True\<close>
  and no \<open>force_update_arg\<close> the cache is \<open>None\<close>, equal to the sentinel, before and after
  the first read, so both reads call the getter. With a getter that counts its calls the two
  reads return 1 and 2 and the counter ends at 2.
\<close>

theorem C3_two_reads_call_the_getter_twice:
  "read_twice (Feature_init (Some counting_getter) None (Some True) None) probe0
     = (Inr (PyInt 1), Inr (PyInt 2),
        Feature_init (Some counting_getter) None (Some True) None,
        probe0\<lparr> config := [[] \<mapsto> PyInt 2], reads := 2 \<rparr>)
   \<and> is_setting (Feature_init (Some counting_getter) None (Some True) None)
   \<and> cached (Feature_init (Some counting_getter) None (Some True) None) = PyNone"
  by (simp add: read_twice_def Feature_init_def Feature_get_def counting_getter_def probe0_def)

subsection \<open>BaslerCamera: the acquisition mode\<close>

lemma acquisition_mode_fset_mode:
  "u_acquisition_mode (snd (acquisition_mode_fset cam v)) =
     (if u_driver cam \<noteq> None \<and> (v = MODE_CONTINUOUS \<or> v = MODE_SINGLE_SHOT) then v
      else u_acquisition_mode cam)"
  by (auto simp add: acquisition_mode_fset_def Let_def log_line_def sdk_call_def split: option.splits)

lemma write_acquisition_mode:
  "u_acquisition_mode (snd (write_feature acquisition_mode cam v)) =
     (if u_driver cam \<noteq> None \<and> (v = MODE_CONTINUOUS \<or> v = MODE_SINGLE_SHOT) then v
      else u_acquisition_mode cam)"
  using acquisition_mode_fset_mode[of cam v]
  by (auto simp add: write_feature_def Feature_set_def acquisition_mode_def Feature_init_def
        split: prod.splits sum.splits)

lemma read_acquisition_mode:
  "read_feature acquisition_mode cam
     = (Inr (u_acquisition_mode cam), cam\<lparr> config := (config cam)([] \<mapsto> u_acquisition_mode cam) \<rparr>)"
  by (simp add: read_feature_def Feature_get_def acquisition_mode_def Feature_init_def
        acquisition_mode_fget_def)

lemma assign_modes_stored:
  "u_acquisition_mode (assign_modes vs cam) = MODE_SINGLE_SHOT
   \<or> u_acquisition_mode (assign_modes vs cam) = MODE_CONTINUOUS
   \<or> u_acquisition_mode (assign_modes vs cam) = u_acquisition_mode cam"
proof (induction vs arbitrary: cam)
  case Nil
  show ?case by simp
next
  case (Cons v vs)
  show ?case
    using Cons.IH[of "snd (write_feature acquisition_mode cam v)"] write_acquisition_mode[of cam v]
    by (auto split: if_splits)
qed

text \<open>
  C10. A new camera stores \<open>MODE_SINGLE_SHOT\<close>. An assignment to \<open>acquisition_mode\<close>
  leaves in \<open>_acquisition_mode\<close> either \<open>MODE_CONTINUOUS\<close>, \<open>MODE_SINGLE_SHOT\<close> or what
  was there before, and it leaves what was there before when the value assigned is neither of
  the two (\<open>MODE_LAST\<close> is such a value). So after any sequence of assignments to a camera
  whose stored mode is not \<open>MODE_LAST\<close>, the stored mode is not \<open>MODE_LAST\<close>, and the
  read \<open>self.acquisition_mode\<close> that \<open>trigger_camera\<close> and \<open>read_camera\<close> branch on does
  not return it.
\<close>

theorem C10_stored_mode_never_last:
  "u_acquisition_mode (BaslerCamera_init cam_id init_conf) = MODE_SINGLE_SHOT
   \<and> (u_acquisition_mode (snd (write_feature acquisition_mode cam v)) = MODE_CONTINUOUS
        \<or> u_acquisition_mode (snd (write_feature acquisition_mode cam v)) = MODE_SINGLE_SHOT
        \<or> u_acquisition_mode (snd (write_feature acquisition_mode cam v)) = u_acquisition_mode cam)
   \<and> (v \<noteq> MODE_CONTINUOUS \<and> v \<noteq> MODE_SINGLE_SHOT \<longrightarrow>
        u_acquisition_mode (snd (write_feature acquisition_mode cam v)) = u_acquisition_mode cam)
   \<and> (u_acquisition_mode cam \<noteq> MODE_LAST \<longrightarrow>
        u_acquisition_mode (assign_modes vs cam) \<noteq> MODE_LAST
        \<and> fst (read_feature acquisition_mode (assign_modes vs cam)) \<noteq> Inr MODE_LAST)"
proof (intro conjI impI)
  show "u_acquisition_mode (BaslerCamera_init cam_id init_conf) = MODE_SINGLE_SHOT"
    by (simp add: BaslerCamera_init_def)
  show "u_acquisition_mode (snd (write_feature acquisition_mode cam v)) = MODE_CONTINUOUS
        \<or> u_acquisition_mode (snd (write_feature acquisition_mode cam v)) = MODE_SINGLE_SHOT
        \<or> u_acquisition_mode (snd (write_feature acquisition_mode cam v)) = u_acquisition_mode cam"
    using write_acquisition_mode[of cam v] by (auto split: if_splits)
next
  assume "v \<noteq> MODE_CONTINUOUS \<and> v \<noteq> MODE_SINGLE_SHOT"
  then show "u_acquisition_mode (snd (write_feature acquisition_mode cam v)) = u_acquisition_mode cam"
    using write_acquisition_mode[of cam v] by simp
next
  assume a: "u_acquisition_mode cam \<noteq> MODE_LAST"
  show n: "u_acquisition_mode (assign_modes vs cam) \<noteq> MODE_LAST"
    using assign_modes_stored[of vs cam] a by auto
  show "fst (read_feature acquisition_mode (assign_modes vs cam)) \<noteq> Inr MODE_LAST"
    using n by (simp add: read_acquisition_mode)
qed

lemma cam_open_eq:
  "cam_open =
     cam0\<lparr> u_driver := Some \<lparr> device = devA, IsOpen = True, IsGrabbing = False,
                              strategy = None, software_trigger = True \<rparr>,
           friendly_name := ''Basler acA1920 (1)'',
           logger := [LogDebug ''Initializing Basler Camera'',
                      LogInfo ''Loaded camera {self._driver.GetDeviceInfo().GetModelName()}''],
           sdk_calls := [Attach devA, Open devA, GetDeviceInfo, RegisterConfiguration] \<rparr>"
  by (simp add: cam_open_def initialize_def cam0_def BaslerCamera_init_def matches_def devA_def
        attach_and_open_def Let_def log_line_def sdk_call_def driver_do_def)

theorem C10_stored_mode_never_last_witness:
  "MODE_LAST \<noteq> MODE_CONTINUOUS \<and> MODE_LAST \<noteq> MODE_SINGLE_SHOT
   \<and> u_driver cam_open \<noteq> None
   \<and> u_acquisition_mode cam_open = MODE_SINGLE_SHOT
   \<and> u_acquisition_mode (snd (write_feature acquisition_mode cam_open MODE_LAST)) = MODE_SINGLE_SHOT
   \<and> u_acquisition_mode (assign_modes [MODE_CONTINUOUS, MODE_LAST, PyInt 2] cam_open) = MODE_CONTINUOUS
   \<and> u_acquisition_mode (assign_modes [MODE_CONTINUOUS, MODE_LAST, PyInt 2] cam_open) \<noteq> MODE_LAST
   \<and> fst (read_feature acquisition_mode (assign_modes [MODE_CONTINUOUS, MODE_LAST, PyInt 2] cam_open))
       \<noteq> Inr MODE_LAST"
  using C10_stored_mode_never_last[of "''acA''" None cam_open MODE_LAST "[MODE_CONTINUOUS, MODE_LAST, PyInt 2]"]
  by (simp add: write_acquisition_mode) (simp add: cam_open_eq cam0_def BaslerCamera_init_def)

subsection \<open>BaslerCamera: initialize\<close>

lemma matches_attach_and_open: "matches (attach_and_open dev cam) = matches cam"
  by (rule ext) (simp add: matches_def attach_and_open_def)

lemma opened_devices_append: "opened_devices (xs @ ys) = opened_devices xs @ opened_devices ys"
  by (induction xs rule: opened_devices.induct) auto

lemma attach_loop_effect:
  "opened_devices (sdk_calls (attach_loop devs cam))
     = opened_devices (sdk_calls cam) @ filter (matches cam) devs
   \<and> attached_device (attach_loop devs cam)
       = (if filter (matches cam) devs = [] then attached_device cam
          else Some (last (filter (matches cam) devs)))"
proof (induction devs arbitrary: cam)
  case Nil
  show ?case by simp
next
  case (Cons dev devs)
  show ?case
  proof (cases "matches cam dev")
    case True
    have o: "opened_devices (sdk_calls (attach_and_open dev cam)) = opened_devices (sdk_calls cam) @ [dev]"
      by (simp add: attach_and_open_def opened_devices_append)
    have a: "attached_device (attach_and_open dev cam) = Some dev"
      by (simp add: attach_and_open_def attached_device_def)
    show ?thesis
      using True Cons.IH[of "attach_and_open dev cam"] o a by (simp add: matches_attach_and_open)
  next
    case False
    then show ?thesis using Cons.IH[of cam] by simp
  qed
qed

lemma find_filter: "find P xs = (if filter P xs = [] then None else Some (hd (filter P xs)))"
  by (induction xs) auto

lemma initialize_on_match:
  assumes "filter (matches cam) devs \<noteq> []"
  shows "fst (initialize devs cam) = Inr ()
    \<and> attached_device (snd (initialize devs cam)) = Some (last (filter (matches cam) devs))
    \<and> opened_devices (sdk_calls (snd (initialize devs cam)))
        = opened_devices (sdk_calls cam) @ filter (matches cam) devs"
proof -
  let ?c = "log_line (LogDebug ''Initializing Basler Camera'') cam"
  have m: "matches ?c = matches cam" by (rule ext) (simp add: matches_def log_line_def)
  have s: "sdk_calls ?c = sdk_calls cam" by (simp add: log_line_def)
  have ne: "devs \<noteq> []" using assms by auto
  from attach_loop_effect[of devs ?c] assms m s
  have o: "opened_devices (sdk_calls (attach_loop devs ?c))
             = opened_devices (sdk_calls cam) @ filter (matches cam) devs"
    and a: "attached_device (attach_loop devs ?c) = Some (last (filter (matches cam) devs))"
    by simp_all
  from a obtain d where d: "u_driver (attach_loop devs ?c) = Some d"
      "device d = last (filter (matches cam) devs)"
    by (auto simp add: attached_device_def)
  have 1: "fst (initialize devs cam) = Inr ()"
    using ne d by (simp add: initialize_def Let_def driver_do_def sdk_call_def log_line_def)
  have 2: "attached_device (snd (initialize devs cam)) = Some (last (filter (matches cam) devs))"
    using ne d
    by (simp add: initialize_def Let_def driver_do_def sdk_call_def log_line_def attached_device_def)
  have 3: "opened_devices (sdk_calls (snd (initialize devs cam)))
             = opened_devices (sdk_calls cam) @ filter (matches cam) devs"
    using ne d o
    by (simp add: initialize_def Let_def driver_do_def sdk_call_def log_line_def opened_devices_append)
  show ?thesis using 1 2 3 by simp
qed

text \<open>
  C5, as the claim states it, fails: with the devices \<open>devA\<close> and \<open>devB\<close>, whose friendly
  names both contain the identifier \<open>acA\<close>, the first match is \<open>devA\<close>, yet after
  \<open>initialize\<close> the driver is attached to \<open>devB\<close>, and \<open>devB\<close>, a device after the first
  match, has been opened as well.
\<close>

theorem C5_first_match_counterexample:
  "first_match cam0 [devA, devB] = Some devA
   \<and> devA \<noteq> devB
   \<and> fst (initialize [devA, devB] cam0) = Inr ()
   \<and> attached_device (snd (initialize [devA, devB] cam0)) = Some devB
   \<and> opened_devices (sdk_calls (snd (initialize [devA, devB] cam0))) = [devA, devB]"
  by (simp add: first_match_def initialize_def cam0_def BaslerCamera_init_def matches_def
        devA_def devB_def attach_and_open_def Let_def log_line_def sdk_call_def driver_do_def
        attached_device_def)

text \<open>
  C5, amended. When at least one enumerated device's friendly name contains the camera
  identifier, \<open>initialize\<close> succeeds, it attaches and opens every matching device, in the
  order of the enumeration, and no other device, and the driver it leaves is attached to the
  last match. When exactly one device matches, that device is the first match, the driver is
  attached to it and it is the only device opened.
\<close>

theorem C5_initialize_attaches_every_match:
  assumes "\<exists>dev \<in> set devices. matches cam dev"
  shows "fst (initialize devices cam) = Inr ()
    \<and> attached_device (snd (initialize devices cam)) = Some (last (filter (matches cam) devices))
    \<and> opened_devices (sdk_calls (snd (initialize devices cam)))
        = opened_devices (sdk_calls cam) @ filter (matches cam) devices
    \<and> (filter (matches cam) devices = [dev] \<longrightarrow>
          first_match cam devices = Some dev
          \<and> attached_device (snd (initialize devices cam)) = Some dev
          \<and> opened_devices (sdk_calls (snd (initialize devices cam)))
              = opened_devices (sdk_calls cam) @ [dev])"
proof -
  have ne: "filter (matches cam) devices \<noteq> []"
    using assms by (auto simp add: filter_empty_conv)
  show ?thesis
    using initialize_on_match[OF ne] by (auto simp add: first_match_def find_filter)
qed

theorem C5_initialize_attaches_every_match_witness:
  "(\<exists>dev \<in> set [devA, devB]. matches cam0 dev)
   \<and> filter (matches cam0) [devA, devB] = [devA, devB]
   \<and> attached_device (snd (initialize [devA, devB] cam0)) = Some devB
   \<and> opened_devices (sdk_calls (snd (initialize [devA, devB] cam0))) = [devA, devB]
   \<and> (\<exists>dev \<in> set [devOther, devA]. matches cam0 dev)
   \<and> filter (matches cam0) [devOther, devA] = [devA]
   \<and> first_match cam0 [devOther, devA] = Some devA
   \<and> fst (initialize [devOther, devA] cam0) = Inr ()
   \<and> attached_device (snd (initialize [devOther, devA] cam0)) = Some devA
   \<and> opened_devices (sdk_calls (snd (initialize [devOther, devA] cam0))) = [devA]"
proof -
  have m: "matches cam0 devA" "matches cam0 devB" "\<not> matches cam0 devOther"
    by (simp_all add: matches_def cam0_def BaslerCamera_init_def devA_def devB_def devOther_def)
  have s: "sdk_calls cam0 = []" by (simp add: cam0_def BaslerCamera_init_def)
  have h1: "\<exists>dev \<in> set [devA, devB]. matches cam0 dev" using m by simp
  have h2: "\<exists>dev \<in> set [devOther, devA]. matches cam0 dev" using m by simp
  show ?thesis
    using h1 h2 m s
      C5_initialize_attaches_every_match[OF h1, of devA]
      C5_initialize_attaches_every_match[OF h2, of devA]
    by simp
qed

subsection \<open>BaslerCamera: reading the exposure\<close>

lemma read_exposure_cached:
  assumes "config cam ''exposure'' = Some c" and "c \<noteq> PyNone"
  shows "read_feature exposure cam = (Inr c, cam\<lparr> config := (config cam)([] \<mapsto> c) \<rparr>)"
  using assms
  by (simp add: read_feature_def Feature_get_def exposure_def Feature_init_def exposure_fget_def
        config_getitem_def)

lemma read_exposure_device:
  assumes "config cam ''exposure'' = Some PyNone" and "u_driver cam = Some d"
    and "ExposureTime (device d) = Some x"
  shows "read_feature exposure cam
           = (Inr (PyQuantity x ''us''),
              (sdk_call ExposureTime_ToString cam)\<lparr> config := (config cam)([] \<mapsto> PyQuantity x ''us'') \<rparr>)"
  using assms
  by (simp add: read_feature_def Feature_get_def exposure_def Feature_init_def exposure_fget_def
        config_getitem_def sdk_call_def)

lemma read_exposure_timeout:
  assumes "config cam ''exposure'' = Some PyNone" and "u_driver cam = Some d"
    and "ExposureTime (device d) = None"
  shows "read_feature exposure cam
           = (Inr PyNone,
              (log_line (LogError ''Timeout getting the exposure'')
                 (sdk_call ExposureTime_ToString cam))\<lparr> config := (config cam)([] \<mapsto> PyNone) \<rparr>)"
  using assms
  by (simp add: read_feature_def Feature_get_def exposure_def Feature_init_def exposure_fget_def
        config_getitem_def sdk_call_def log_line_def Let_def)

text \<open>
  C6, as the claim states it, fails: on a camera whose configuration store holds the
  exposure 5000 us, attached to a device whose exposure register reads 10000 without any
  timeout, a read of \<open>exposure\<close> returns the cached 5000 us and makes no call into the SDK.
\<close>

theorem C6_cached_exposure_counterexample:
  "config cam_cached ''exposure'' = Some (PyQuantity 5000 ''us'')
   \<and> map_option device (u_driver cam_cached) = Some devA
   \<and> ExposureTime devA = Some 10000
   \<and> fst (read_feature exposure cam_cached) = Inr (PyQuantity 5000 ''us'')
   \<and> sdk_calls (snd (read_feature exposure cam_cached)) = sdk_calls cam_cached"
proof -
  have c: "config cam_cached ''exposure'' = Some (PyQuantity 5000 ''us'')"
    by (simp add: cam_cached_def)
  have d: "map_option device (u_driver cam_cached) = Some devA"
    by (simp add: cam_cached_def cam_open_eq)
  have x: "ExposureTime devA = Some 10000" by (simp add: devA_def)
  show ?thesis using c d x read_exposure_cached[OF c] by simp
qed

text \<open>
  C6, amended. On a camera with a driver whose configuration store has an entry for
  \<open>exposure\<close>: when the entry is not \<open>None\<close>, a read of the Feature returns it and does
  not read the device; when the entry is \<open>None\<close>, the read reads the device's exposure
  register once and returns that value as a quantity in microseconds; and when that register
  read times out, the timeout is logged and the cached entry (\<open>None\<close>) is returned, with no
  error.
\<close>

theorem C6_exposure_read:
  assumes "config cam ''exposure'' = Some c" and "u_driver cam = Some d"
  shows "(c \<noteq> PyNone \<longrightarrow>
            fst (read_feature exposure cam) = Inr c
            \<and> sdk_calls (snd (read_feature exposure cam)) = sdk_calls cam)
       \<and> (c = PyNone \<and> ExposureTime (device d) = Some x \<longrightarrow>
            fst (read_feature exposure cam) = Inr (PyQuantity x ''us'')
            \<and> sdk_calls (snd (read_feature exposure cam)) = sdk_calls cam @ [ExposureTime_ToString])
       \<and> (c = PyNone \<and> ExposureTime (device d) = None \<longrightarrow>
            fst (read_feature exposure cam) = Inr c
            \<and> sdk_calls (snd (read_feature exposure cam)) = sdk_calls cam @ [ExposureTime_ToString]
            \<and> logger (snd (read_feature exposure cam))
                = logger cam @ [LogError ''Timeout getting the exposure''])"
proof (intro conjI impI)
  assume "c \<noteq> PyNone"
  then have e: "read_feature exposure cam = (Inr c, cam\<lparr> config := (config cam)([] \<mapsto> c) \<rparr>)"
    using read_exposure_cached assms by simp
  show "fst (read_feature exposure cam) = Inr c" using e by simp
  show "sdk_calls (snd (read_feature exposure cam)) = sdk_calls cam" using e by simp
next
  assume h: "c = PyNone \<and> ExposureTime (device d) = Some x"
  have e: "read_feature exposure cam
           = (Inr (PyQuantity x ''us''),
              (sdk_call ExposureTime_ToString cam)\<lparr> config := (config cam)([] \<mapsto> PyQuantity x ''us'') \<rparr>)"
    using read_exposure_device[of cam d x] assms h by simp
  show "fst (read_feature exposure cam) = Inr (PyQuantity x ''us'')" using e by simp
  show "sdk_calls (snd (read_feature exposure cam)) = sdk_calls cam @ [ExposureTime_ToString]"
    using e by (simp add: sdk_call_def)
next
  assume h: "c = PyNone \<and> ExposureTime (device d) = None"
  have e: "read_feature exposure cam
           = (Inr PyNone,
              (log_line (LogError ''Timeout getting the exposure'')
                 (sdk_call ExposureTime_ToString cam))\<lparr> config := (config cam)([] \<mapsto> PyNone) \<rparr>)"
    using read_exposure_timeout[of cam d] assms h by simp
  show "fst (read_feature exposure cam) = Inr c" using e h by simp
  show "sdk_calls (snd (read_feature exposure cam)) = sdk_calls cam @ [ExposureTime_ToString]"
    using e by (simp add: sdk_call_def log_line_def)
  show "logger (snd (read_feature exposure cam)) = logger cam @ [LogError ''Timeout getting the exposure'']"
    using e by (simp add: sdk_call_def log_line_def)
qed

theorem C6_exposure_read_witness:
  "config cam_cached ''exposure'' = Some (PyQuantity 5000 ''us'')
   \<and> fst (read_feature exposure cam_cached) = Inr (PyQuantity 5000 ''us'')
   \<and> sdk_calls (snd (read_feature exposure cam_cached)) = sdk_calls cam_cached
   \<and> config cam_uncached ''exposure'' = Some PyNone
   \<and> fst (read_feature exposure cam_uncached) = Inr (PyQuantity 10000 ''us'')
   \<and> sdk_calls (snd (read_feature exposure cam_uncached)) = sdk_calls cam_uncached @ [ExposureTime_ToString]
   \<and> config cam_timeout ''exposure'' = Some PyNone
   \<and> fst (read_feature exposure cam_timeout) = Inr PyNone
   \<and> sdk_calls (snd (read_feature exposure cam_timeout)) = sdk_calls cam_timeout @ [ExposureTime_ToString]
   \<and> logger (snd (read_feature exposure cam_timeout))
       = logger cam_timeout @ [LogError ''Timeout getting the exposure'']"
proof -
  let ?dA = "\<lparr> device = devA, IsOpen = True, IsGrabbing = False, strategy = None,
               software_trigger = True \<rparr>"
  let ?dT = "\<lparr> device = devA\<lparr> ExposureTime := None \<rparr>, IsOpen = True, IsGrabbing = False,
               strategy = None, software_trigger = True \<rparr>"
  have c1: "config cam_cached ''exposure'' = Some (PyQuantity 5000 ''us'')"
    and d1: "u_driver cam_cached = Some ?dA"
    by (simp_all add: cam_cached_def cam_open_eq)
  have c2: "config cam_uncached ''exposure'' = Some PyNone"
    and d2: "u_driver cam_uncached = Some ?dA"
    by (simp_all add: cam_uncached_def cam_open_eq)
  have c3: "config cam_timeout ''exposure'' = Some PyNone"
    and d3: "u_driver cam_timeout = Some ?dT"
    by (simp_all add: cam_timeout_def cam_uncached_def cam_open_eq)
  have x2: "ExposureTime (device ?dA) = Some 10000" by (simp add: devA_def)
  have x3: "ExposureTime (device ?dT) = None" by simp
  show ?thesis
    using c1 c2 c3 x2 x3
      C6_exposure_read[OF c1 d1, of 0]
      C6_exposure_read[OF c2 d2, of 10000]
      C6_exposure_read[OF c3 d3, of 0]
    by simp
qed

subsection \<open>BaslerCamera: read_camera\<close>


lemma retrieve_result_return_not_wrong_state:
  "fst (retrieve_result TimeoutHandling_Return cam) \<noteq> Inl (WrongCameraState msg)"
  by (auto simp add: retrieve_result_def bind_res_def read_feature_def Feature_get_def exposure_def
        Feature_init_def exposure_fget_def config_getitem_def m_as_def Let_def
        split: option.splits prod.splits sum.splits list.splits pyval.splits if_splits)

lemma stop_grabbing_not_wrong_state:
  "fst (stop_grabbing cam) \<noteq> Inl (WrongCameraState msg)"
  by (auto simp add: stop_grabbing_def driver_do_def split: option.splits)

lemma read_camera_continuous_not_grabbing:
  assumes "u_driver cam = Some d" and "\<not> IsGrabbing d"
    and "u_acquisition_mode cam \<noteq> MODE_SINGLE_SHOT" and "u_acquisition_mode cam \<noteq> MODE_LAST"
  shows "read_camera cam
           = (Inl (WrongCameraState ''You need to trigger the camera before reading''),
              sdk_call IsGrabbing_call (cam\<lparr> config := (config cam)([] \<mapsto> u_acquisition_mode cam) \<rparr>))"
  using assms by (simp add: read_camera_def read_acquisition_mode bind_res_def)

lemma stop_then_return_not_wrong_state:
  "fst (bind_res (stop_grabbing c) (\<lambda>u c4. (Inr img, c4))) \<noteq> Inl (WrongCameraState msg)"
  by (auto simp add: stop_grabbing_def driver_do_def bind_res_def split: option.splits)

lemma read_camera_single_or_last:
  assumes "u_acquisition_mode cam = MODE_SINGLE_SHOT \<or> u_acquisition_mode cam = MODE_LAST"
  shows "fst (read_camera cam) \<noteq> Inl (WrongCameraState msg)"
proof -
  let ?c1 = "log_line (LogInfo ''Grabbing mode: {mode}'')
               (cam\<lparr> config := (config cam)([] \<mapsto> u_acquisition_mode cam) \<rparr>)"
  obtain r c2 where rr: "retrieve_result TimeoutHandling_Return ?c1 = (r, c2)"
    by (cases "retrieve_result TimeoutHandling_Return ?c1")
  have nr: "r \<noteq> Inl (WrongCameraState msg)"
    using retrieve_result_return_not_wrong_state[of ?c1 msg] rr by simp
  show ?thesis
  proof (cases r)
    case (Inl e)
    then show ?thesis using assms nr rr
      by (auto simp add: read_camera_def read_acquisition_mode bind_res_def)
  next
    case (Inr g)
    then show ?thesis using assms rr
      by (auto simp add: stop_then_return_not_wrong_state read_camera_def read_acquisition_mode bind_res_def[of "(Inr g, c2)"]
            bind_res_def[of "(Inr MODE_SINGLE_SHOT, _)"] bind_res_def[of "(Inr MODE_LAST, _)"] Let_def
            split: prod.splits)
  qed
qed

text \<open>
  C7, as the claim states it, fails for the mode \<open>last\<close>: on a camera in \<open>MODE_LAST\<close>
  whose device is not grabbing, \<open>read_camera\<close> raises nothing; it asks the SDK for a result
  (with the timeout of 5 ms + 100 ms) and returns the empty list.
\<close>

theorem C7_last_mode_counterexample:
  "u_acquisition_mode cam_last = MODE_LAST
   \<and> map_option IsGrabbing (u_driver cam_last) = Some False
   \<and> fst (read_camera cam_last) = Inr []
   \<and> sdk_calls (snd (read_camera cam_last))
       = sdk_calls cam_last @ [RetrieveResult 105 TimeoutHandling_Return]"
proof -
  let ?c0 = "cam_last\<lparr> config := (config cam_last)([] \<mapsto> MODE_LAST) \<rparr>"
  let ?c1 = "log_line (LogInfo ''Grabbing mode: {mode}'') ?c0"
  let ?c2 = "?c1\<lparr> config := (config ?c1)([] \<mapsto> PyQuantity 5000 ''us'') \<rparr>"
  have m: "u_acquisition_mode cam_last = MODE_LAST" by (simp add: cam_last_def)
  have g: "map_option IsGrabbing (u_driver cam_last) = Some False"
    by (simp add: cam_last_def cam_cached_def cam_open_eq)
  have rm: "read_feature acquisition_mode cam_last = (Inr MODE_LAST, ?c0)"
    using m by (simp add: read_acquisition_mode)
  have cfg: "config ?c1 ''exposure'' = Some (PyQuantity 5000 ''us'')"
    by (simp add: log_line_def cam_last_def cam_cached_def)
  have ex: "read_feature exposure ?c1 = (Inr (PyQuantity 5000 ''us''), ?c2)"
    using read_exposure_cached[OF cfg] by simp
  have d1: "u_driver ?c1 \<noteq> None" and d2: "map_option (\<lambda>d. output_queue (device d)) (u_driver ?c2) = Some []"
    by (simp_all add: log_line_def cam_last_def cam_cached_def cam_open_eq devA_def)
  have ms: "m_as (PyQuantity 5000 ''us'') ''ms'' = Inr 5"
    by (simp add: m_as_def unit_in_seconds_def)
  have rr: "retrieve_result TimeoutHandling_Return ?c1
              = (Inr None, sdk_call (RetrieveResult 105 TimeoutHandling_Return) ?c2)"
    using d1 d2 by (auto simp add: retrieve_result_def ex bind_res_def ms py_int_def Let_def)
  have rc: "read_camera cam_last = (Inr [], sdk_call (RetrieveResult 105 TimeoutHandling_Return) ?c2)"
    by (simp add: read_camera_def rm bind_res_def rr)
  have s: "sdk_calls (sdk_call (RetrieveResult 105 TimeoutHandling_Return) ?c2)
             = sdk_calls cam_last @ [RetrieveResult 105 TimeoutHandling_Return]"
    by (simp add: sdk_call_def log_line_def)
  show ?thesis using m g rc s by simp
qed

text \<open>
  C7, amended. While the device is not grabbing, \<open>read_camera\<close> raises the "wrong camera
  state" error whenever the current acquisition mode is neither single-shot nor \<open>last\<close>,
  as it is in continuous mode, and then its only call into the SDK is the question
  \<open>IsGrabbing\<close>: no frame retrieval is attempted. In the mode \<open>last\<close>, as in single-shot
  mode, the state of the device is not tested and \<open>read_camera\<close> never raises "wrong camera
  state".
\<close>

theorem C7_read_camera_not_grabbing:
  assumes "u_driver cam = Some d" and "\<not> IsGrabbing d"
  shows "(u_acquisition_mode cam \<noteq> MODE_SINGLE_SHOT \<and> u_acquisition_mode cam \<noteq> MODE_LAST \<longrightarrow>
            fst (read_camera cam)
              = Inl (WrongCameraState ''You need to trigger the camera before reading'')
            \<and> sdk_calls (snd (read_camera cam)) = sdk_calls cam @ [IsGrabbing_call])
       \<and> (u_acquisition_mode cam = MODE_SINGLE_SHOT \<or> u_acquisition_mode cam = MODE_LAST \<longrightarrow>
            fst (read_camera cam) \<noteq> Inl (WrongCameraState msg))"
proof (intro conjI impI)
  assume h: "u_acquisition_mode cam \<noteq> MODE_SINGLE_SHOT \<and> u_acquisition_mode cam \<noteq> MODE_LAST"
  have e: "read_camera cam
             = (Inl (WrongCameraState ''You need to trigger the camera before reading''),
                sdk_call IsGrabbing_call (cam\<lparr> config := (config cam)([] \<mapsto> u_acquisition_mode cam) \<rparr>))"
    using read_camera_continuous_not_grabbing[of cam d] assms h by simp
  show "fst (read_camera cam) = Inl (WrongCameraState ''You need to trigger the camera before reading'')"
    using e by simp
  show "sdk_calls (snd (read_camera cam)) = sdk_calls cam @ [IsGrabbing_call]"
    using e by (simp add: sdk_call_def)
next
  assume "u_acquisition_mode cam = MODE_SINGLE_SHOT \<or> u_acquisition_mode cam = MODE_LAST"
  then show "fst (read_camera cam) \<noteq> Inl (WrongCameraState msg)"
    using read_camera_single_or_last by simp
qed

lemma cam_continuous_eq:
  "cam_continuous =
     cam_cached\<lparr> config := [''exposure'' \<mapsto> PyQuantity 5000 ''us'', [] \<mapsto> MODE_CONTINUOUS],
                 u_acquisition_mode := MODE_CONTINUOUS,
                 logger := logger cam_cached
                           @ [LogInfo ''{self} Setting acquisition mode to {mode}'',
                              LogDebug ''Setting buffer to {self._driver.MaxNumBuffer.Value}''],
                 sdk_calls := sdk_calls cam_cached @ [IsGrabbing_call, MaxNumBuffer_Value] \<rparr>"
  by (simp add: cam_continuous_def cam_cached_def cam_open_eq cam0_def BaslerCamera_init_def
        write_feature_def Feature_set_def acquisition_mode_def Feature_init_def
        acquisition_mode_fset_def log_line_def sdk_call_def Let_def)

theorem C7_read_camera_not_grabbing_witness:
  "map_option IsGrabbing (u_driver cam_continuous) = Some False
   \<and> u_acquisition_mode cam_continuous = MODE_CONTINUOUS
   \<and> count_list (sdk_calls cam_continuous) ExecuteSoftwareTrigger = 0
   \<and> fst (read_camera cam_continuous)
       = Inl (WrongCameraState ''You need to trigger the camera before reading'')
   \<and> sdk_calls (snd (read_camera cam_continuous)) = sdk_calls cam_continuous @ [IsGrabbing_call]
   \<and> map_option IsGrabbing (u_driver cam_last) = Some False
   \<and> u_acquisition_mode cam_last = MODE_LAST
   \<and> fst (read_camera cam_last)
       \<noteq> Inl (WrongCameraState ''You need to trigger the camera before reading'')"
proof -
  let ?dA = "\<lparr> device = devA, IsOpen = True, IsGrabbing = False, strategy = None,
               software_trigger = True \<rparr>"
  have d1: "u_driver cam_continuous = Some ?dA"
    by (simp add: cam_continuous_eq cam_cached_def cam_open_eq)
  have d2: "u_driver cam_last = Some ?dA"
    by (simp add: cam_last_def cam_cached_def cam_open_eq)
  have g: "\<not> IsGrabbing ?dA" by simp
  have m1: "u_acquisition_mode cam_continuous = MODE_CONTINUOUS" by (simp add: cam_continuous_eq)
  have m2: "u_acquisition_mode cam_last = MODE_LAST" by (simp add: cam_last_def)
  have t: "count_list (sdk_calls cam_continuous) ExecuteSoftwareTrigger = 0"
    by (simp add: cam_continuous_eq cam_cached_def cam_open_eq)
  show ?thesis
    using d1 d2 m1 m2 t
      C7_read_camera_not_grabbing[OF d1 g]
      C7_read_camera_not_grabbing[OF d2 g, of "''You need to trigger the camera before reading''"]
    by simp
qed

subsection \<open>BaslerCamera: start_free_run\<close>


lemma write_continuous:
  assumes "u_driver cam = Some d"
  shows "fst (write_feature acquisition_mode cam MODE_CONTINUOUS) = Inr ()
    \<and> u_driver (snd (write_feature acquisition_mode cam MODE_CONTINUOUS)) = Some d
    \<and> u_acquisition_mode (snd (write_feature acquisition_mode cam MODE_CONTINUOUS)) = MODE_CONTINUOUS
    \<and> free_run_running (snd (write_feature acquisition_mode cam MODE_CONTINUOUS)) = free_run_running cam
    \<and> triggers (snd (write_feature acquisition_mode cam MODE_CONTINUOUS)) = triggers cam"
  using assms
  by (simp add: write_feature_def Feature_set_def acquisition_mode_def Feature_init_def
        acquisition_mode_fset_def log_line_def sdk_call_def Let_def triggers_def)

lemma select_dtype_ok:
  assumes "u_driver cam = Some d"
  shows "fst (select_dtype cam) = Inr ()
    \<and> u_driver (snd (select_dtype cam)) = Some d
    \<and> free_run_running (snd (select_dtype cam)) = free_run_running cam
    \<and> u_acquisition_mode (snd (select_dtype cam)) = u_acquisition_mode cam
    \<and> triggers (snd (select_dtype cam)) = triggers cam"
  using assms
  by (simp add: select_dtype_def read_feature_def Feature_get_def pixel_format_def Feature_init_def
        pixel_format_fget_def bind_res_def sdk_call_def triggers_def)

lemma trigger_camera_continuous:
  assumes "u_driver cam = Some d" and "u_acquisition_mode cam = MODE_CONTINUOUS"
  shows "fst (trigger_camera cam) = Inr ()
    \<and> triggers (snd (trigger_camera cam)) = triggers cam + 1
    \<and> free_run_running (snd (trigger_camera cam)) = free_run_running cam
    \<and> u_acquisition_mode (snd (trigger_camera cam)) = MODE_CONTINUOUS"
  using assms
  by (simp add: trigger_camera_def Let_def stop_grabbing_def start_grabbing_def driver_do_def
        read_feature_def Feature_get_def acquisition_mode_def acquisition_mode_fget_def
        Feature_init_def select_dtype_def pixel_format_def pixel_format_fget_def
        bind_res_def sdk_call_def log_line_def triggers_def)

lemma triggers_log_line: "triggers (log_line l c) = triggers c"
  by (simp add: triggers_def log_line_def)

lemma start_free_run_again:
  "free_run_running cam \<Longrightarrow>
   start_free_run cam
     = (Inr (), log_line (LogInfo ''Trying to start again the free acquisition of camera {self}'') cam)"
  by (simp add: start_free_run_def)

lemma start_free_run_first:
  assumes "\<not> free_run_running cam" and "u_driver cam = Some d"
  shows "fst (start_free_run cam) = Inr ()
    \<and> triggers (snd (start_free_run cam)) = triggers cam + 1
    \<and> free_run_running (snd (start_free_run cam))
    \<and> u_acquisition_mode (snd (start_free_run cam)) = MODE_CONTINUOUS"
proof -
  let ?c3 = "log_line (LogDebug ''First frame of a free_run'')
               ((log_line (LogInfo ''Starting a free run acquisition of camera {self}'') cam)
                  \<lparr> free_run_running := True \<rparr>)"
  have d3: "u_driver ?c3 = Some d" using assms by (simp add: log_line_def)
  note wc = write_continuous[OF d3]
  obtain c4 where w: "write_feature acquisition_mode ?c3 MODE_CONTINUOUS = (Inr (), c4)"
    using wc by (cases "write_feature acquisition_mode ?c3 MODE_CONTINUOUS") auto
  have p4: "u_driver c4 = Some d" "u_acquisition_mode c4 = MODE_CONTINUOUS"
       "free_run_running c4" "triggers c4 = triggers cam"
    using wc w by (simp_all add: log_line_def triggers_def)
  have sf: "start_free_run cam = trigger_camera c4"
    using assms w by (simp add: start_free_run_def Let_def bind_res_def)
  show ?thesis using sf trigger_camera_continuous[OF p4(1) p4(2)] p4 by simp
qed

text \<open>
  C9. On a camera with a driver that is not yet in free run, the first \<open>start_free_run\<close>
  succeeds, sets the running flag, stores \<open>MODE_CONTINUOUS\<close> and issues one software
  trigger. The second call, made right after, returns at once: the camera it leaves is the
  camera the first call left with one more logged line, so nothing but the log changes and
  the two calls together have issued exactly one trigger.
\<close>

theorem C9_start_free_run_twice:
  assumes "\<not> free_run_running cam" and "u_driver cam = Some d"
  shows "fst (start_free_run cam) = Inr ()
    \<and> triggers (snd (start_free_run cam)) = triggers cam + 1
    \<and> free_run_running (snd (start_free_run cam))
    \<and> u_acquisition_mode (snd (start_free_run cam)) = MODE_CONTINUOUS
    \<and> start_free_run (snd (start_free_run cam))
        = (Inr (),
           log_line (LogInfo ''Trying to start again the free acquisition of camera {self}'')
             (snd (start_free_run cam)))
    \<and> triggers (snd (start_free_run (snd (start_free_run cam)))) = triggers cam + 1"
proof -
  note first = start_free_run_first[OF assms]
  have running: "free_run_running (snd (start_free_run cam))" using first by simp
  have again: "start_free_run (snd (start_free_run cam))
        = (Inr (),
           log_line (LogInfo ''Trying to start again the free acquisition of camera {self}'')
             (snd (start_free_run cam)))"
    using start_free_run_again[OF running] .
  have "triggers (snd (start_free_run (snd (start_free_run cam))))
          = triggers (snd (start_free_run cam))"
    by (simp add: again triggers_def log_line_def)
  then show ?thesis using first again by simp
qed

theorem C9_start_free_run_twice_witness:
  "\<not> free_run_running cam_open
   \<and> u_driver cam_open \<noteq> None
   \<and> triggers cam_open = 0
   \<and> fst (start_free_run cam_open) = Inr ()
   \<and> triggers (snd (start_free_run cam_open)) = 1
   \<and> free_run_running (snd (start_free_run cam_open))
   \<and> u_acquisition_mode (snd (start_free_run cam_open)) = MODE_CONTINUOUS
   \<and> fst (start_free_run (snd (start_free_run cam_open))) = Inr ()
   \<and> triggers (snd (start_free_run (snd (start_free_run cam_open)))) = 1"
proof -
  let ?dA = "\<lparr> device = devA, IsOpen = True, IsGrabbing = False, strategy = None,
               software_trigger = True \<rparr>"
  have r: "\<not> free_run_running cam_open"
    by (simp add: cam_open_eq cam0_def BaslerCamera_init_def)
  have d: "u_driver cam_open = Some ?dA" by (simp add: cam_open_eq)
  have t: "triggers cam_open = 0" by (simp add: triggers_def cam_open_eq)
  show ?thesis using r d t C9_start_free_run_twice[OF r d] by (simp add: triggers_log_line)
qed

end
